theory Spec2Isabelle
  imports Complex_Main "HOL-Library.Word" "HOL-Library.Product_Lexorder"
begin

section \<open>JavaScript values used by the fingerprint matcher\<close>

subsection \<open>Numbers\<close>

text \<open>
  \<^verbatim>\<open>compareFingerprints\<close> computes its score with JavaScript Numbers (IEEE 754 binary64):
  \<^verbatim>\<open>(matchingBytes / minLength) * 100\<close>. Both operands of the division are non-negative
  integers, so the values that can arise are the finite non-negative doubles, \<open>+Infinity\<close>
  (a positive count divided by zero) and \<open>NaN\<close> (zero divided by zero). A finite double is
  represented by the rational number it denotes; every arithmetic result is rounded to the
  nearest double, ties to even, by \<open>fl\<close>. Subnormal results and overflow are not modelled:
  a quotient of two array lengths and its product with 100 stay far inside the normal range.
\<close>

datatype number = Num rat | PosInfinity | NaN

function bit_length :: "int \<Rightarrow> nat" where
  "bit_length n = (if n \<le> 0 then 0 else Suc (bit_length (n div 2)))"
  by pat_completeness auto
termination
  by (relation "measure nat") auto

declare bit_length.simps [simp del]

text \<open>\<open>scaled a b s\<close> is the fraction \<open>a / b * 2 ^ s\<close> as a pair of integers.\<close>

definition scaled :: "int \<Rightarrow> int \<Rightarrow> int \<Rightarrow> int \<times> int" where
  "scaled a b s = (if 0 \<le> s then (a * 2 ^ nat s, b) else (a, b * 2 ^ nat (- s)))"

text \<open>The integer nearest to \<open>a / b\<close> (for \<open>0 < b\<close>), a tie going to the even neighbour.\<close>

definition nearest_even :: "int \<times> int \<Rightarrow> int" where
  "nearest_even p = (case p of (a, b) \<Rightarrow>
     let q = a div b; r = a mod b in
     if 2 * r < b then q else if b < 2 * r then q + 1 else if even q then q else q + 1)"

text \<open>
  \<open>binade a b\<close> is the exponent \<open>e\<close> with \<open>2 ^ e \<le> a / b < 2 ^ (e + 1)\<close>, for positive
  \<open>a\<close> and \<open>b\<close>: the difference of the bit lengths is either \<open>e\<close> or \<open>e + 1\<close>.
\<close>

definition binade :: "int \<Rightarrow> int \<Rightarrow> int" where
  "binade a b = (let d = int (bit_length a) - int (bit_length b) in
     case scaled a b (- d) of (a', b') \<Rightarrow> if b' \<le> a' then d else d - 1)"

text \<open>
  Rounding of a non-negative rational to binary64 (53 significant bits): the significand is
  the quotient scaled into \<open>[2 ^ 52, 2 ^ 53)\<close> and rounded to the nearest integer.
\<close>

definition fl :: "rat \<Rightarrow> rat" where
  "fl q = (case quotient_of q of (a, b) \<Rightarrow>
     if a \<le> 0 then 0
     else let e = binade a b - 52 in
       of_int (nearest_even (scaled a b (- e))) * 2 powi e)"

text \<open>\<^verbatim>\<open>a / b\<close> on two non-negative integers.\<close>

definition js_div :: "nat \<Rightarrow> nat \<Rightarrow> number" where
  "js_div a b =
     (if b = 0 then (if a = 0 then NaN else PosInfinity)
      else Num (fl (of_nat a / of_nat b)))"

text \<open>\<^verbatim>\<open>x * c\<close> for a positive finite constant \<open>c\<close>.\<close>

fun js_mul :: "number \<Rightarrow> rat \<Rightarrow> number" where
  "js_mul (Num q) c = Num (fl (q * c))"
| "js_mul PosInfinity c = PosInfinity"
| "js_mul NaN c = NaN"

text \<open>\<^verbatim>\<open>x > c\<close> for a finite constant \<open>c\<close>: every comparison with \<open>NaN\<close> is false.\<close>

fun js_gt :: "number \<Rightarrow> rat \<Rightarrow> bool" where
  "js_gt (Num q) c = (c < q)"
| "js_gt PosInfinity c = True"
| "js_gt NaN c = False"

subsection \<open>Base64 decoding\<close>

text \<open>
  \<^verbatim>\<open>atob\<close> is the browser built-in; it follows the forgiving-base64 decode of the WHATWG
  Infra standard and throws \<^verbatim>\<open>InvalidCharacterError\<close> where that decoding fails. Its
  result is a binary string, one character per byte, which is what \<open>string\<close> is here.
\<close>

datatype js_error = InvalidCharacterError

definition ascii_whitespace :: "char \<Rightarrow> bool" where
  "ascii_whitespace c = (let n = (of_char c :: int) in n = 9 \<or> n = 10 \<or> n = 12 \<or> n = 13 \<or> n = 32)"

definition strip_padding :: "string \<Rightarrow> string" where
  "strip_padding d =
     (if length d mod 4 = 0 then
        (case rev d of
           x # y # r \<Rightarrow>
             if x = CHR ''='' \<and> y = CHR ''='' then rev r
             else if x = CHR ''='' then rev (y # r)
             else d
         | _ \<Rightarrow> d)
      else d)"

definition sextet :: "char \<Rightarrow> int option" where
  "sextet c = (let n = (of_char c :: int) in
     if 65 \<le> n \<and> n \<le> 90 then Some (n - 65)
     else if 97 \<le> n \<and> n \<le> 122 then Some (n - 71)
     else if 48 \<le> n \<and> n \<le> 57 then Some (n + 4)
     else if n = 43 then Some 62
     else if n = 47 then Some 63
     else None)"

fun decode_sextets :: "int list \<Rightarrow> string" where
  "decode_sextets (a # b # c # d # rest) =
     (let n = ((a * 64 + b) * 64 + c) * 64 + d
      in char_of (n div 65536) # char_of (n div 256) # char_of n # decode_sextets rest)"
| "decode_sextets [a, b, c] =
     (let n = ((a * 64 + b) * 64 + c) div 4 in [char_of (n div 256), char_of n])"
| "decode_sextets [a, b] = [char_of ((a * 64 + b) div 16)]"
| "decode_sextets _ = []"

definition atob :: "string \<Rightarrow> js_error + string" where
  "atob base64 =
     (let d = strip_padding (filter (\<lambda>c. \<not> ascii_whitespace c) base64) in
      if length d mod 4 = 1 then Inl InvalidCharacterError
      else case those (map sextet d) of
        None \<Rightarrow> Inl InvalidCharacterError
      | Some vs \<Rightarrow> Inr (decode_sextets vs))"

section \<open>FingerprintService\<close>

type_synonym byte = "8 word"

text \<open>
  The object built by \<^verbatim>\<open>captureFingerprint\<close>, \<^verbatim>\<open>{format, data, raw}\<close>; the template that
  \<^verbatim>\<open>verificarDigitalComTodos\<close> builds from a stored document has no \<^verbatim>\<open>data\<close>.
\<close>

record template =
  format :: string
  data :: "string option"
  raw :: string

record match_result =
  matched :: bool
  score :: number

text \<open>\<^verbatim>\<open>base64ToArrayBuffer\<close>: the character codes of \<^verbatim>\<open>atob(base64)\<close> in a \<^verbatim>\<open>Uint8Array\<close>.\<close>

definition base64ToArrayBuffer :: "string \<Rightarrow> js_error + byte list" where
  "base64ToArrayBuffer base64 =
     (case atob base64 of
        Inl e \<Rightarrow> Inl e
      | Inr binaryString \<Rightarrow> Inr (map of_char binaryString))"

text \<open>
  The counting loop of \<^verbatim>\<open>compareFingerprints\<close>,
  \<^verbatim>\<open>for (let i = 0; i < minLength; i++) if (Math.abs(bytes1[i] - bytes2[i]) <= 5) matchingBytes++\<close>,
  with the loop variable and the counter as arguments. The indices stay below both lengths.
\<close>

function count_loop :: "byte list \<Rightarrow> byte list \<Rightarrow> nat \<Rightarrow> nat \<Rightarrow> nat \<Rightarrow> nat" where
  "count_loop bytes1 bytes2 minLength i matchingBytes =
     (if i < minLength then
        count_loop bytes1 bytes2 minLength (Suc i)
          (if \<bar>uint (bytes1 ! i) - uint (bytes2 ! i)\<bar> \<le> 5 then Suc matchingBytes
           else matchingBytes)
      else matchingBytes)"
  by pat_completeness auto
termination
  by (relation "measure (\<lambda>(bytes1, bytes2, minLength, i, matchingBytes). minLength - i)") auto

declare count_loop.simps [simp del]

text \<open>
  \<^verbatim>\<open>compareFingerprints(template1, template2)\<close>. An argument that is \<^verbatim>\<open>null\<close> or
  \<^verbatim>\<open>undefined\<close> is \<open>None\<close>. The result is \<open>Inl\<close> when \<^verbatim>\<open>atob\<close> throws.
\<close>

definition compareFingerprints :: "template option \<Rightarrow> template option \<Rightarrow> js_error + match_result" where
  "compareFingerprints template1 template2 =
     (case (template1, template2) of
        (Some t1, Some t2) \<Rightarrow>
          if raw t1 = raw t2 then Inr \<lparr>matched = True, score = Num 100\<rparr>
          else (case base64ToArrayBuffer (raw t1) of
              Inl e \<Rightarrow> Inl e
            | Inr bytes1 \<Rightarrow>
               (case base64ToArrayBuffer (raw t2) of
                  Inl e \<Rightarrow> Inl e
                | Inr bytes2 \<Rightarrow>
                   (let minLength = min (length bytes1) (length bytes2);
                        matchingBytes = count_loop bytes1 bytes2 minLength 0 0;
                        score = js_mul (js_div matchingBytes minLength) 100
                    in Inr \<lparr>matched = js_gt score 70, score = score\<rparr>)))
      | _ \<Rightarrow> Inr \<lparr>matched = False, score = Num 0\<rparr>)"

section \<open>FirebaseService\<close>

subsection \<open>The Firestore collections\<close>

text \<open>
  Every error that the services and the controller throw, catch or report. The thrown
  \<^verbatim>\<open>Error\<close> objects are told apart by what raised them; their message texts are not kept.
  \<open>StoreUnavailable\<close> is the rejection of a Firestore call, \<open>DuplicateTemplate\<close> the error
  thrown by \<^verbatim>\<open>FirebaseService.cadastrarFuncionario\<close>, \<open>CaptureFailed\<close> the error thrown by
  \<^verbatim>\<open>capturarDigital\<close> on an empty capture, \<open>ConfirmationMismatch\<close> the error text returned when
  the confirmation capture does not match. \<open>SessionBusy\<close> is the error of the specification
  for a capture requested while another one is pending; no function here produces it.
\<close>

datatype failure =
    CaptureTimeout
  | DeviceError
  | SessionBusy
  | CaptureFailed
  | MatcherError js_error
  | StoreUnavailable
  | DuplicateTemplate
  | ConfirmationMismatch

text \<open>The employee data passed to enrolment: \<^verbatim>\<open>{nome, cargo, departamento, email}\<close>.\<close>

record perfil =
  nome :: string
  cargo :: string
  departamento :: string
  email :: string

text \<open>The \<^verbatim>\<open>digital\<close> field of an employee document (its server timestamp is never read).\<close>

record digital_doc =
  formato :: string
  dados :: string

text \<open>
  A document of the collection \<^verbatim>\<open>funcionarios\<close> as the queries return it,
  \<^verbatim>\<open>{id: doc.id, ...doc.data()}\<close>. A document may lack the \<^verbatim>\<open>digital\<close> field.
\<close>

record funcionario = perfil +
  ident :: nat
  digital :: "digital_doc option"
  ativo :: bool

text \<open>
  A document of the collection \<^verbatim>\<open>registros\<close>. A time is the millisecond value of a \<^verbatim>\<open>Date\<close>
  (an instant, whatever the time zone); \<open>reg_data\<close> is the field \<^verbatim>\<open>data\<close>, a date string. The
  server timestamp of the document is never read.
\<close>

record registro =
  reg_ident :: nat
  funcionarioId :: nat
  reg_nome :: string
  tipo :: string
  horario :: int
  reg_data :: string

text \<open>
  The store: the two collections in the order in which an unordered query returns their
  documents, the counter that stands for Firestore's automatic document identifiers, and
  the outcome of the coming Firestore calls: every call consumes one entry of \<open>faults\<close>,
  and \<open>True\<close> makes that call reject. An empty schedule means that every call succeeds.
\<close>

record store =
  funcionarios :: "funcionario list"
  registros :: "registro list"
  next_ident :: nat
  faults :: "bool list"

definition firestore_call :: "store \<Rightarrow> bool \<times> store" where
  "firestore_call s =
     (case faults s of
        [] \<Rightarrow> (True, s)
      | rejected # rest \<Rightarrow> (\<not> rejected, s\<lparr>faults := rest\<rparr>))"

definition entrada :: string where
  "entrada = ''entrada''"

text \<open>
  The other type string of the source (the Portuguese word for exit); its accented letter
  is kept as the two bytes of its UTF-8 encoding.
\<close>

definition saida :: string where
  "saida = [CHR ''s'', CHR ''a'', CHR 0xC3, CHR 0xAD, CHR ''d'', CHR ''a'']"

text \<open>
  What the local calendar of the browser makes of an instant is given from outside: it
  depends on the time zone, on its daylight saving shifts and on the rule by which the
  \<^verbatim>\<open>Date\<close> constructor reads the years 0 to 99. For the instant \<open>t\<close> of a \<^verbatim>\<open>Date\<close> object \<^verbatim>\<open>d\<close>,
  \<open>meia_noite c t\<close> is the instant of
  \<^verbatim>\<open>new Date(d.getFullYear(), d.getMonth(), d.getDate(), 0, 0, 0)\<close> and \<open>data_pt_BR c t\<close> is
  \<^verbatim>\<open>d.toLocaleDateString('pt-BR')\<close>. Nothing is assumed of either function.
\<close>

record calendario =
  meia_noite :: "int \<Rightarrow> int"
  data_pt_BR :: "int \<Rightarrow> string"

subsection \<open>Employees\<close>

text \<open>
  \<^verbatim>\<open>buscarFuncionarioPorDigitalExata\<close>: the active documents whose \<^verbatim>\<open>digital.dados\<close> equals
  the raw payload, limited to one. A rejected query is rethrown.
\<close>

definition buscarFuncionarioPorDigitalExata ::
    "store \<Rightarrow> string \<Rightarrow> (failure + funcionario option) \<times> store" where
  "buscarFuncionarioPorDigitalExata s digitalRaw =
     (case firestore_call s of
        (False, s1) \<Rightarrow> (Inl StoreUnavailable, s1)
      | (True, s1) \<Rightarrow>
          (case filter (\<lambda>f. map_option dados (digital f) = Some digitalRaw \<and> ativo f)
                  (funcionarios s1) of
             [] \<Rightarrow> (Inr None, s1)
           | doc # _ \<Rightarrow> (Inr (Some doc), s1)))"


text \<open>
  \<^verbatim>\<open>FirebaseService.cadastrarFuncionario(funcionario, digitalTemplate)\<close>: the exact lookup,
  the duplicate error, then the \<^verbatim>\<open>add\<close>. The result is the identifier of the new document.
\<close>

definition FirebaseService_cadastrarFuncionario ::
    "store \<Rightarrow> perfil \<Rightarrow> template \<Rightarrow> (failure + nat) \<times> store" where
  "FirebaseService_cadastrarFuncionario s funcionario digitalTemplate =
     (case buscarFuncionarioPorDigitalExata s (raw digitalTemplate) of
        (Inl e, s1) \<Rightarrow> (Inl e, s1)
      | (Inr (Some existente), s1) \<Rightarrow> (Inl DuplicateTemplate, s1)
      | (Inr None, s1) \<Rightarrow>
          (case firestore_call s1 of
             (False, s2) \<Rightarrow> (Inl StoreUnavailable, s2)
           | (True, s2) \<Rightarrow>
               (let doc = \<lparr>nome = nome funcionario, cargo = cargo funcionario,
                          departamento = departamento funcionario, email = email funcionario,
                          ident = next_ident s2,
                          digital = Some \<lparr>formato = format digitalTemplate,
                                          dados = raw digitalTemplate\<rparr>,
                          ativo = True\<rparr>
                in (Inr (next_ident s2),
                    s2\<lparr>funcionarios := funcionarios s2 @ [doc],
                       next_ident := Suc (next_ident s2)\<rparr>))))"

subsection \<open>Attendance records\<close>

text \<open>
  The query of \<^verbatim>\<open>determinarTipoRegistro\<close>: the employee's records with
  \<^verbatim>\<open>horario >= inicioHoje\<close>, ordered by \<^verbatim>\<open>horario\<close> descending (Firestore orders equal keys by
  document name in the same direction), limited to one.
\<close>

definition ultimo_registro_query :: "registro list \<Rightarrow> nat \<Rightarrow> int \<Rightarrow> registro list" where
  "ultimo_registro_query docs funcionarioId' inicioHoje =
     take 1 (rev (sort_key (\<lambda>r. (horario r, reg_ident r))
       (filter (\<lambda>r. funcionarioId r = funcionarioId' \<and> inicioHoje \<le> horario r) docs)))"

text \<open>
  \<^verbatim>\<open>determinarTipoRegistro(funcionarioId)\<close>; \<open>hoje\<close> is its clock reading \<^verbatim>\<open>new Date()\<close>, and
  the query starts at the local midnight of that reading. The \<^verbatim>\<open>catch\<close> block returns
  \<^verbatim>\<open>"entrada"\<close>, so the function never throws.
\<close>

definition determinarTipoRegistro ::
    "calendario \<Rightarrow> store \<Rightarrow> int \<Rightarrow> nat \<Rightarrow> string \<times> store" where
  "determinarTipoRegistro cal s hoje funcionarioId' =
     (let inicioHoje = meia_noite cal hoje in
      case firestore_call s of
        (False, s1) \<Rightarrow> (entrada, s1)
      | (True, s1) \<Rightarrow>
          (case ultimo_registro_query (registros s1) funcionarioId' inicioHoje of
             [] \<Rightarrow> (entrada, s1)
           | ultimoRegistro # _ \<Rightarrow>
               (if tipo ultimoRegistro = entrada then saida else entrada, s1)))"

text \<open>The object returned by \<^verbatim>\<open>registrarPonto\<close>: \<^verbatim>\<open>{id, tipo, horario}\<close>.\<close>

record ponto =
  ponto_id :: nat
  ponto_tipo :: string
  ponto_horario :: int

text \<open>
  \<^verbatim>\<open>registrarPonto(funcionarioId, dadosFuncionario)\<close>; \<open>agora\<close> is its own clock reading, taken
  before the one of \<^verbatim>\<open>determinarTipoRegistro\<close>.
\<close>

definition registrarPonto ::
    "calendario \<Rightarrow> store \<Rightarrow> int \<Rightarrow> int \<Rightarrow> nat \<Rightarrow> 'a perfil_scheme \<Rightarrow>
      (failure + ponto) \<times> store" where
  "registrarPonto cal s agora hoje funcionarioId' dadosFuncionario =
     (case determinarTipoRegistro cal s hoje funcionarioId' of
        (tipoRegistro, s1) \<Rightarrow>
          (case firestore_call s1 of
             (False, s2) \<Rightarrow> (Inl StoreUnavailable, s2)
           | (True, s2) \<Rightarrow>
               (let doc = \<lparr>reg_ident = next_ident s2, funcionarioId = funcionarioId',
                          reg_nome = nome dadosFuncionario, tipo = tipoRegistro,
                          horario = agora, reg_data = data_pt_BR cal agora\<rparr>
                in (Inr \<lparr>ponto_id = next_ident s2, ponto_tipo = tipoRegistro,
                         ponto_horario = agora\<rparr>,
                    s2\<lparr>registros := registros s2 @ [doc],
                       next_ident := Suc (next_ident s2)\<rparr>))))"

section \<open>FingerprintController\<close>

text \<open>
  The status line of the page (\<^verbatim>\<open>updateStatus\<close>) and the scanner animation are display
  only and are left out. The capture device is the environment: what the awaited promise of
  \<^verbatim>\<open>captureFingerprint\<close> settles to is an argument, \<open>Inl\<close> for a rejection and \<open>Inr\<close> for the
  resolved value (\<open>None\<close> for a resolved value that is not a template).
\<close>

type_synonym capture_outcome = "failure + template option"

text \<open>The message texts placed in the \<^verbatim>\<open>mensagem\<close> field of a result.\<close>

datatype mensagem =
    CadastradoComSucesso
  | DigitalNaoReconhecida
  | PontoRegistrado string
  | NenhumFuncionarioCadastrado
  | DigitalNaoCorresponde

text \<open>
  The result objects of the controller. A field that the returned object does not have is
  \<open>None\<close>. \<open>error\<close> stands for the error text.
\<close>

record resultado =
  success :: bool
  error :: "failure option"
  mensagem :: "mensagem option"
  res_funcionarioId :: "nat option"
  res_funcionario :: "funcionario option"
  res_registro :: "ponto option"
  res_score :: "number option"

definition falha :: "failure \<Rightarrow> resultado" where
  "falha e = \<lparr>success = False, error = Some e, mensagem = None, res_funcionarioId = None,
     res_funcionario = None, res_registro = None, res_score = None\<rparr>"


text \<open>\<^verbatim>\<open>capturarDigital\<close>: the awaited capture, with the check \<^verbatim>\<open>if (!template) throw\<close>.\<close>

definition capturarDigital :: "capture_outcome \<Rightarrow> failure + template" where
  "capturarDigital captura =
     (case captura of
        Inl e \<Rightarrow> Inl e
      | Inr None \<Rightarrow> Inl CaptureFailed
      | Inr (Some t) \<Rightarrow> Inr t)"

text \<open>
  \<^verbatim>\<open>FingerprintController.cadastrarFuncionario(dadosFuncionario)\<close> with the outcomes of its
  two captures (the pause of two seconds between them does not enter the result). Every
  thrown error ends in the outer \<^verbatim>\<open>catch\<close>, which returns
  \<^verbatim>\<open>{success: false, error: error.message}\<close>; a negative verdict returns the same kind of
  object with the text that the two captures do not correspond.
\<close>

definition FingerprintController_cadastrarFuncionario ::
    "store \<Rightarrow> perfil \<Rightarrow> capture_outcome \<Rightarrow> capture_outcome \<Rightarrow> resultado \<times> store" where
  "FingerprintController_cadastrarFuncionario s dadosFuncionario captura1 captura2 =
     (case capturarDigital captura1 of
        Inl e \<Rightarrow> (falha e, s)
      | Inr digitalTemplate \<Rightarrow>
          (case capturarDigital captura2 of
             Inl e \<Rightarrow> (falha e, s)
           | Inr confirmacaoTemplate \<Rightarrow>
               (case compareFingerprints (Some digitalTemplate) (Some confirmacaoTemplate) of
                  Inl e \<Rightarrow> (falha (MatcherError e), s)
                | Inr verificacao \<Rightarrow>
                    if \<not> matched verificacao then (falha ConfirmationMismatch, s)
                    else
                      (case FirebaseService_cadastrarFuncionario s dadosFuncionario
                              digitalTemplate of
                         (Inl e, s1) \<Rightarrow> (falha e, s1)
                       | (Inr funcionarioId', s1) \<Rightarrow>
                           (\<lparr>success = True, error = None,
                             mensagem = Some CadastradoComSucesso,
                             res_funcionarioId = Some funcionarioId',
                             res_funcionario = None, res_registro = None,
                             res_score = None\<rparr>, s1)))))"






section \<open>Starting a capture\<close>

text \<open>
  \<^verbatim>\<open>captureFingerprint\<close> returns a promise whose executor runs at once. The executor replaces
  the global function \<^verbatim>\<open>window.sampleAcquired\<close> by a closure that remembers the function it
  replaced and the promise it resolves. A handler is therefore either the function of the
  page or such a closure.
\<close>

datatype handler = PageHandler | Wrapper nat handler

datatype promise_state = Pending | Resolved template | Rejected failure

datatype sample_format = PngImage | OtherFormat

text \<open>
  The part of the browser that the executor touches: the four \<^verbatim>\<open>localStorage\<close> items, the
  global \<^verbatim>\<open>currentFormat\<close>, \<^verbatim>\<open>window.sampleAcquired\<close>, the promises created so far (a promise is
  its index), the pending timers of \<^verbatim>\<open>setTimeout\<close> (each with its promise and the handler it
  restores), the status messages and the \<^verbatim>\<open>fingerprintCaptured\<close> events sent, and the scanner
  SDK: how often \<^verbatim>\<open>startCapture\<close> has returned, how often \<^verbatim>\<open>stopCapture\<close> was called, and
  whether the coming call of \<^verbatim>\<open>startCapture\<close> throws.
\<close>

record browser =
  imageSrc :: string
  raw_item :: string
  wsq :: string
  intermediate :: string
  currentFormat :: sample_format
  sampleAcquired :: handler
  promises :: "promise_state list"
  timers :: "(nat \<times> handler) list"
  status_messages :: "string list"
  captured_events :: "template list"
  startCapture_calls :: nat
  stopCapture_calls :: nat
  startCapture_throws :: bool

text \<open>
  \<^verbatim>\<open>captureFingerprint()\<close>: the new promise and the browser after the executor has run. No
  field of the service or of the browser is tested before the capture is started.
\<close>

definition captureFingerprint :: "browser \<Rightarrow> nat \<times> browser" where
  "captureFingerprint b =
     (let p = length (promises b);
          b1 = b\<lparr>promises := promises b @ [Pending]\<rparr>;
          b2 = b1\<lparr>imageSrc := [], raw_item := [], wsq := [], intermediate := []\<rparr>;
          b3 = b2\<lparr>currentFormat := PngImage\<rparr>;
          originalSampleAcquired = sampleAcquired b3;
          b4 = b3\<lparr>sampleAcquired := Wrapper p originalSampleAcquired\<rparr>;
          b5 = b4\<lparr>status_messages := status_messages b4 @ [''Posicione seu dedo no leitor...'']\<rparr>
      in if startCapture_throws b5 then
           (p, b5\<lparr>sampleAcquired := originalSampleAcquired,
                  promises := (promises b5)[p := Rejected DeviceError]\<rparr>)
         else
           (p, b5\<lparr>startCapture_calls := Suc (startCapture_calls b5),
                  timers := timers b5 @ [(p, originalSampleAcquired)]\<rparr>))"

text \<open>A capture is in flight while its promise is pending.\<close>

definition in_flight :: "browser \<Rightarrow> bool" where
  "in_flight b = (Pending \<in> set (promises b))"

text \<open>
  Settling a promise: \<^verbatim>\<open>resolve\<close> and \<^verbatim>\<open>reject\<close> act on a pending promise only.
\<close>

definition settle :: "nat \<Rightarrow> promise_state \<Rightarrow> browser \<Rightarrow> browser" where
  "settle p outcome b =
     (if p < length (promises b) \<and> promises b ! p = Pending
      then b\<lparr>promises := (promises b)[p := outcome]\<rparr> else b)"

text \<open>
  The sample that the SDK hands to \<^verbatim>\<open>window.sampleAcquired\<close>: the array \<^verbatim>\<open>JSON.parse(s.samples)\<close>,
  which has a first element.
\<close>

record sample =
  first_sample :: string
  other_samples :: "string list"

text \<open>
  Calling a handler with a sample. The function of the page is not part of these sources and
  is a parameter. The closure installed by \<^verbatim>\<open>captureFingerprint\<close> calls the handler it replaced
  and then, if \<^verbatim>\<open>localStorage\<close> holds an image, builds the template, sends the event, stops the
  capture, resolves its promise and puts the handler it replaced back.
\<close>

fun run_handler :: "(sample \<Rightarrow> browser \<Rightarrow> browser) \<Rightarrow> handler \<Rightarrow> sample \<Rightarrow> browser \<Rightarrow> browser" where
  "run_handler page PageHandler s b = page s b"
| "run_handler page (Wrapper p originalSampleAcquired) s b =
     (let b1 = run_handler page originalSampleAcquired s b in
      if imageSrc b1 \<noteq> [] then
        (let template = \<lparr>format = ''PNG'', data = Some (imageSrc b1), raw = first_sample s\<rparr>;
             b2 = b1\<lparr>captured_events := captured_events b1 @ [template]\<rparr>;
             b3 = b2\<lparr>stopCapture_calls := Suc (stopCapture_calls b2)\<rparr>;
             b4 = settle p (Resolved template) b3
         in b4\<lparr>sampleAcquired := originalSampleAcquired\<rparr>)
      else b1)"

text \<open>The SDK delivers a sample: it calls the current \<^verbatim>\<open>window.sampleAcquired\<close>.\<close>

definition sample_arrives :: "(sample \<Rightarrow> browser \<Rightarrow> browser) \<Rightarrow> sample \<Rightarrow> browser \<Rightarrow> browser" where
  "sample_arrives page s b = run_handler page (sampleAcquired b) s b"

text \<open>
  The oldest pending timer fires after its 15 seconds: the handler is put back, the capture
  is stopped and the promise is rejected (without effect on a promise already settled).
\<close>

definition timer_fires :: "browser \<Rightarrow> browser" where
  "timer_fires b =
     (case timers b of
        [] \<Rightarrow> b
      | (p, originalSampleAcquired) # rest \<Rightarrow>
          settle p (Rejected CaptureTimeout)
            (b\<lparr>timers := rest, sampleAcquired := originalSampleAcquired,
               stopCapture_calls := Suc (stopCapture_calls b)\<rparr>))"

section \<open>Notions used in the statements\<close>

text \<open>
  The employee's records that the query of \<^verbatim>\<open>determinarTipoRegistro\<close> ranges over when it starts
  at the instant \<open>inicio\<close>: those with \<^verbatim>\<open>horario >= inicio\<close>. The query has no upper bound.
\<close>

definition registros_desde :: "store \<Rightarrow> int \<Rightarrow> nat \<Rightarrow> registro set" where
  "registros_desde s inicio funcionarioId' =
     {r \<in> set (registros s). funcionarioId r = funcionarioId' \<and> inicio \<le> horario r}"

text \<open>
  The comparison \<^verbatim>\<open>x == y\<close> of two JavaScript numbers: \<^verbatim>\<open>NaN\<close> is equal to nothing, itself
  included.
\<close>

fun js_equals :: "number \<Rightarrow> number \<Rightarrow> bool" where
  "js_equals NaN y = False"
| "js_equals x NaN = False"
| "js_equals x y = (x = y)"

text \<open>The raw payloads of the active employees that have a template, in store order.\<close>

definition digitais_ativas :: "store \<Rightarrow> string option list" where
  "digitais_ativas s =
     map (\<lambda>f. map_option dados (digital f))
       (filter (\<lambda>f. ativo f \<and> digital f \<noteq> None) (funcionarios s))"


section \<open>Concrete inputs\<close>

text \<open>
  Two captures whose payloads decode to ten bytes each: ten zero bytes, and seven zero bytes
  followed by three bytes 255. Seven of the ten positions agree.
\<close>

definition boundary_a :: template where
  "boundary_a = \<lparr>format = ''PNG'', data = Some ''data:image/png;base64,AA'', raw = ''AAAAAAAAAAAAAA==''\<rparr>"

definition boundary_b :: template where
  "boundary_b = \<lparr>format = ''PNG'', data = Some ''data:image/png;base64,AA'', raw = ''AAAAAAAAAP///w==''\<rparr>"

text \<open>A capture with an empty payload and one whose payload decodes to the single byte 65.\<close>

definition empty_capture :: template where
  "empty_capture = \<lparr>format = ''PNG'', data = Some ''data:image/png;base64,AA'', raw = ''''\<rparr>"

definition one_byte_capture :: template where
  "one_byte_capture = \<lparr>format = ''PNG'', data = Some ''data:image/png;base64,AA'', raw = ''QQ==''\<rparr>"

text \<open>
  The calendar of a browser whose time zone is UTC, for the instants of the years 1000 to
  9999: the local midnight is the last whole multiple of a day, and the date string is day,
  month and year of the Gregorian calendar, computed from the number of days since the
  first of January 1970.
\<close>

definition data_civil :: "int \<Rightarrow> int \<times> int \<times> int" where
  "data_civil dias =
     (let z = dias + 719468;
          era = z div 146097;
          doe = z mod 146097;
          yoe = (doe - doe div 1460 + doe div 36524 - doe div 146096) div 365;
          doy = doe - (365 * yoe + yoe div 4 - yoe div 100);
          mp = (5 * doy + 2) div 153;
          d = doy - (153 * mp + 2) div 5 + 1;
          m = (if mp < 10 then mp + 3 else mp - 9);
          y = yoe + era * 400 + (if m \<le> 2 then 1 else 0)
      in (d, m, y))"

definition digito :: "int \<Rightarrow> char" where
  "digito n = ''0123456789'' ! nat (n mod 10)"

definition data_utc :: "int \<Rightarrow> string" where
  "data_utc t =
     (case data_civil (t div 86400000) of
        (d, m, y) \<Rightarrow>
          [digito (d div 10), digito d, CHR ''/'', digito (m div 10), digito m, CHR ''/'',
           digito (y div 1000), digito (y div 100), digito (y div 10), digito y])"

definition calendario_utc :: calendario where
  "calendario_utc = \<lparr>meia_noite = (\<lambda>t. t - t mod 86400000), data_pt_BR = data_utc\<rparr>"

text \<open>
  An enrolled employee, the profile of this employee, another profile, and five instants: nine and eighteen
  o'clock of the third of November 2025, the last millisecond of that day, the first
  instant of the next day and nine o'clock of the next day.
\<close>

definition ana :: funcionario where
  "ana = \<lparr>nome = ''Ana'', cargo = ''Analista'', departamento = ''TI'', email = ''ana@example.com'',
     ident = 1, digital = Some \<lparr>formato = ''PNG'', dados = ''AAAAAAAAAAAAAA==''\<rparr>, ativo = True\<rparr>"

definition manha :: int where
  "manha = 20395 * 86400000 + 32400000"

definition tarde :: int where
  "tarde = 20395 * 86400000 + 64800000"

definition fim_do_dia :: int where
  "fim_do_dia = 20396 * 86400000 - 1"

definition virada :: int where
  "virada = 20396 * 86400000"

definition amanha :: int where
  "amanha = 20396 * 86400000 + 32400000"

text \<open>
  Stores: one where the employee has an entry record of the morning of the third of
  November, one where the only record is an entry dated on the morning of the fourth, one
  with the employee only, and an empty one.
\<close>

definition loja_com_entrada :: store where
  "loja_com_entrada = \<lparr>funcionarios = [ana],
     registros = [\<lparr>reg_ident = 7, funcionarioId = 1, reg_nome = ''Ana'', tipo = entrada,
                   horario = manha, reg_data = ''03/11/2025''\<rparr>],
     next_ident = 8, faults = []\<rparr>"

definition loja_adiantada :: store where
  "loja_adiantada = \<lparr>funcionarios = [ana],
     registros = [\<lparr>reg_ident = 7, funcionarioId = 1, reg_nome = ''Ana'', tipo = entrada,
                   horario = amanha, reg_data = ''04/11/2025''\<rparr>],
     next_ident = 8, faults = []\<rparr>"

definition bruno :: perfil where
  "bruno = \<lparr>nome = ''Bruno'', cargo = ''Operador'', departamento = ''Fabrica'',
     email = ''bruno@example.com''\<rparr>"

definition loja_com_ana :: store where
  "loja_com_ana = \<lparr>funcionarios = [ana], registros = [], next_ident = 2, faults = []\<rparr>"

definition perfil_ana :: perfil where
  "perfil_ana = \<lparr>nome = ''Ana'', cargo = ''Analista'', departamento = ''TI'',
     email = ''ana@example.com''\<rparr>"

definition loja_vazia :: store where
  "loja_vazia = \<lparr>funcionarios = [], registros = [], next_ident = 1, faults = []\<rparr>"










text \<open>The page before any capture.\<close>

definition navegador_inicial :: browser where
  "navegador_inicial = \<lparr>imageSrc = [], raw_item = [], wsq = [], intermediate = [],
     currentFormat = OtherFormat, sampleAcquired = PageHandler, promises = [], timers = [],
     status_messages = [], captured_events = [], startCapture_calls = 0,
     stopCapture_calls = 0, startCapture_throws = False\<rparr>"

text \<open>A page function that stores the delivered image, and a delivered sample.\<close>

definition pagina :: "sample \<Rightarrow> browser \<Rightarrow> browser" where
  "pagina s b = b\<lparr>imageSrc := ''data:image/png;base64,'' @ first_sample s\<rparr>"

definition amostra :: sample where
  "amostra = \<lparr>first_sample = ''AAAAAAAAAAAAAA=='', other_samples = []\<rparr>"

section \<open>Properties of the matcher\<close>

subsection \<open>Rounding\<close>

text \<open>
  The rounding function agrees with binary64 arithmetic; three quotients and their products
  with 100 as JavaScript computes them (\<^verbatim>\<open>0.57 * 100\<close> is \<^verbatim>\<open>56.99999999999999\<close>).
\<close>

lemma fl_samples:
  "fl (1 / 3) = 6004799503160661 / 18014398509481984"
  "fl (57 / 100) = 5134103575202365 / 9007199254740992"
  "fl (fl (57 / 100) * 100) = 8022036836253695 / 140737488355328"
  "fl (fl (1 / 3) * 100) = 2345624805922133 / 70368744177664"
  by code_simp+

lemma bit_length_bounds:
  "0 < n \<Longrightarrow> 2 ^ (bit_length n - 1) \<le> n \<and> n < 2 ^ bit_length n"
proof (induction n rule: bit_length.induct)
  case (1 n)
  show ?case
  proof (cases "n div 2 \<le> 0")
    case True
    with "1.prems" have "n = 1" by linarith
    then show ?thesis
      by (simp add: bit_length.simps [of 1] bit_length.simps [of 0])
  next
    case False
    then have pos: "0 < n div 2" by simp
    from "1.IH" [OF _ pos] "1.prems"
    have ih: "2 ^ (bit_length (n div 2) - 1) \<le> n div 2" "n div 2 < 2 ^ bit_length (n div 2)"
      by simp_all
    have bl: "bit_length n = Suc (bit_length (n div 2))"
      using "1.prems" by (subst bit_length.simps) simp
    have "0 < bit_length (n div 2)"
      using pos by (subst bit_length.simps) simp
    then have "(2::int) ^ bit_length (n div 2) = 2 * 2 ^ (bit_length (n div 2) - 1)"
      by (cases "bit_length (n div 2)") simp_all
    then show ?thesis
      using ih bl by (simp) linarith
  qed
qed

lemma nearest_even_le:
  assumes "0 < b" and "a \<le> N * b"
  shows "nearest_even (a, b) \<le> N"
proof -
  have d: "a div b \<le> N"
    using assms by (metis div_mult_self2 dual_order.strict_implies_not_eq zdiv_mono1 nonzero_mult_div_cancel_right)
  show ?thesis
  proof (cases "a div b = N")
    case True
    then have "a mod b = a - N * b"
      by (metis minus_div_mult_eq_mod)
    then have "a mod b = 0"
      using assms pos_mod_sign [of b a] by linarith
    then show ?thesis
      using True assms(1) by (simp add: nearest_even_def Let_def)
  next
    case False
    then have "a div b + 1 \<le> N" using d by simp
    then show ?thesis
      using d by (simp add: nearest_even_def Let_def)
  qed
qed

lemma nearest_even_nonneg:
  assumes "0 < b" and "0 \<le> a"
  shows "0 \<le> nearest_even (a, b)"
proof -
  have "0 \<le> a div b"
    using assms by (simp add: pos_imp_zdiv_nonneg_iff)
  then show ?thesis
    by (simp add: nearest_even_def Let_def)
qed

lemma scale_le:
  fixes x y p q :: rat
  assumes "p * q = 1" and "0 < p" and "x \<le> y * q"
  shows "p * x \<le> y"
proof -
  have "p * x \<le> p * (y * q)"
    using assms(2,3) by (simp add: mult_left_mono)
  also have "\<dots> = y * (p * q)"
    by (simp add: mult_ac)
  finally show ?thesis
    by (simp add: assms(1))
qed

lemma binade_lower:
  assumes "0 < a" and "0 < b"
  shows "(2::rat) powi (binade a b) \<le> of_int a / of_int b"
proof -
  let ?la = "bit_length a" and ?lb = "bit_length b"
  let ?d = "int ?la - int ?lb"
  have la: "2 ^ (?la - 1) \<le> a" and lb: "b < 2 ^ ?lb"
    using bit_length_bounds [OF assms(1)] bit_length_bounds [OF assms(2)] by simp_all
  have la_pos: "0 < ?la"
    using assms(1) by (subst bit_length.simps) simp
  have bpos: "(0::rat) < of_int b" using assms(2) by simp
  obtain a' b' where sc: "scaled a b (- ?d) = (a', b')"
    by (cases "scaled a b (- ?d)")
  show ?thesis
  proof (cases "b' \<le> a'")
    case True
    then have e: "binade a b = ?d"
      using sc by (simp add: binade_def Let_def)
    have "(2::rat) powi ?d * of_int b \<le> of_int a"
    proof (cases "0 \<le> - ?d")
      case True
      then have le: "b \<le> a * 2 ^ nat (- ?d)"
        using \<open>b' \<le> a'\<close> sc by (auto simp add: scaled_def)
      have "(2::rat) powi ?d * 2 ^ nat (- ?d) = 1"
        using True by (simp add: power_int_def field_simps)
      moreover have "(0::rat) < 2 powi ?d"
        by simp
      moreover have "(of_int b :: rat) \<le> of_int (a * 2 ^ nat (- ?d))"
        using le by (simp only: of_int_le_iff)
      then have "(of_int b :: rat) \<le> of_int a * 2 ^ nat (- ?d)"
        by simp
      ultimately show ?thesis
        by (rule scale_le)
    next
      case False
      then have le: "b * 2 ^ nat ?d \<le> a"
        using \<open>b' \<le> a'\<close> sc by (auto simp add: scaled_def)
      have "(2::rat) powi ?d = 2 ^ nat ?d"
        using False by (simp add: power_int_def)
      moreover have "(of_int (b * 2 ^ nat ?d) :: rat) \<le> of_int a"
        using le by (simp only: of_int_le_iff)
      then have "(of_int b :: rat) * 2 ^ nat ?d \<le> of_int a"
        by simp
      ultimately show ?thesis
        by (simp add: field_simps)
    qed
    then have "(2::rat) powi ?d \<le> of_int a / of_int b"
      using bpos by (simp add: field_simps)
    then show ?thesis
      by (simp only: e)
  next
    case False
    then have e: "binade a b = ?d - 1"
      using sc by (simp add: binade_def Let_def)
    obtain m where m: "?la = Suc m"
      using la_pos by (cases ?la) simp_all
    have "?d - 1 = int m - int ?lb"
      by (simp add: m)
    then have "(2::rat) powi (?d - 1) = 2 powi (int m - int ?lb)"
      by (simp only:)
    also have "\<dots> = 2 ^ m / 2 ^ ?lb"
      by (simp add: power_int_diff)
    finally have p: "(2::rat) powi (?d - 1) = 2 ^ (?la - 1) / 2 ^ ?lb"
      by (simp add: m)
    have "(of_int (2 ^ (?la - 1)) :: rat) \<le> of_int a"
      using la by (simp only: of_int_le_iff)
    then have x: "(2::rat) ^ (?la - 1) \<le> of_int a"
      by simp
    have "(of_int b :: rat) \<le> of_int (2 ^ ?lb)"
      using lb by (simp only: of_int_le_iff)
    then have w: "(of_int b :: rat) \<le> 2 ^ ?lb"
      by simp
    have y: "(0::rat) \<le> of_int a"
      using assms(1) by simp
    have "(2::rat) ^ (?la - 1) / 2 ^ ?lb \<le> of_int a / of_int b"
      using y x bpos w by (rule frac_le)
    then have "(2::rat) powi (?d - 1) \<le> of_int a / of_int b"
      by (simp only: p)
    then show ?thesis
      by (simp only: e)
  qed
qed

lemma scaled_pos:
  assumes "0 < b" and "0 \<le> a" and "scaled a b s = (a', b')"
  shows "0 < b' \<and> 0 \<le> a'"
  using assms by (auto simp add: scaled_def split: if_splits)

lemma fl_nonneg: "0 \<le> fl q"
proof -
  obtain a b where qd: "quotient_of q = (a, b)"
    by (cases "quotient_of q")
  then have bpos: "0 < b"
    by (rule quotient_of_denom_pos)
  show ?thesis
  proof (cases "a \<le> 0")
    case True
    then show ?thesis by (simp add: fl_def qd)
  next
    case False
    obtain a' b' where sc: "scaled a b (- (binade a b - 52)) = (a', b')"
      by (cases "scaled a b (- (binade a b - 52))")
    then have "0 < b' \<and> 0 \<le> a'"
      using scaled_pos [OF bpos _ sc] False by simp
    then have "0 \<le> nearest_even (a', b')"
      by (simp add: nearest_even_nonneg)
    then show ?thesis
      using False sc by (simp add: fl_def qd Let_def)
  qed
qed

lemma fl_le_int:
  assumes "q \<le> of_int c" and "c < 2 ^ 53" and "0 \<le> c"
  shows "fl q \<le> of_int c"
proof -
  obtain a b where qd: "quotient_of q = (a, b)"
    by (cases "quotient_of q")
  then have bpos: "0 < b"
    by (rule quotient_of_denom_pos)
  have q: "q = of_int a / of_int b"
    using qd by (rule quotient_of_div)
  show ?thesis
  proof (cases "a \<le> 0")
    case True
    then show ?thesis using assms(3) by (simp add: fl_def qd)
  next
    case False
    then have apos: "0 < a" by simp
    define k where "k = nat (52 - binade a b)"
    have "(2::rat) powi (binade a b) \<le> q"
      using binade_lower [OF apos bpos] q by simp
    also have "q \<le> of_int c"
      by (rule assms(1))
    also have "(of_int c :: rat) < of_int (2 ^ 53)"
      using assms(2) by (simp only: of_int_less_iff)
    finally have "(2::rat) powi (binade a b) < 2 powi 53"
      by simp
    then have "binade a b < 53"
      by (rule power_int_le_imp_less_exp [rotated]) simp_all
    then have e: "- (binade a b - 52) = int k" "0 \<le> - (binade a b - 52)"
      by (simp_all add: k_def)
    then have sc: "scaled a b (- (binade a b - 52)) = (a * 2 ^ k, b)"
      by (simp add: scaled_def)
    have "of_int a \<le> (of_int c :: rat) * of_int b"
      using assms(1) bpos by (simp add: q field_simps)
    then have "(of_int a :: rat) \<le> of_int (c * b)"
      by simp
    then have "a \<le> c * b"
      by (simp only: of_int_le_iff)
    then have "a * 2 ^ k \<le> (c * 2 ^ k) * b"
      by (simp add: mult.assoc mult.left_commute mult_right_mono)
    then have m: "nearest_even (a * 2 ^ k, b) \<le> c * 2 ^ k"
      using bpos by (intro nearest_even_le) simp_all
    have p: "(2::rat) powi (binade a b - 52) * 2 ^ k = 1"
      using e by (simp add: power_int_def k_def field_simps)
    have "fl q = of_int (nearest_even (a * 2 ^ k, b)) * 2 powi (binade a b - 52)"
      using False sc by (simp add: fl_def qd Let_def)
    also have "\<dots> \<le> of_int (c * 2 ^ k) * 2 powi (binade a b - 52)"
    proof (rule mult_right_mono)
      show "(of_int (nearest_even (a * 2 ^ k, b)) :: rat) \<le> of_int (c * 2 ^ k)"
        using m by (simp only: of_int_le_iff)
      show "(0::rat) \<le> 2 powi (binade a b - 52)"
        by simp
    qed
    also have "\<dots> = of_int c * (2 powi (binade a b - 52) * 2 ^ k)"
      by (simp add: mult_ac)
    finally show ?thesis
      by (simp add: p)
  qed
qed

lemma score_in_range:
  assumes "k \<le> n" and "0 < n"
  shows "\<exists>q. js_mul (js_div k n) 100 = Num q \<and> 0 \<le> q \<and> q \<le> 100"
proof -
  have "(of_nat k :: rat) / of_nat n \<le> of_int 1"
    using assms by simp
  then have "fl (of_nat k / of_nat n) \<le> of_int 1"
    by (rule fl_le_int) simp_all
  then have "fl (of_nat k / of_nat n) * 100 \<le> of_int 100"
    by simp
  then have "fl (fl (of_nat k / of_nat n) * 100) \<le> of_int 100"
    by (rule fl_le_int) simp_all
  then show ?thesis
    using assms(2) by (simp add: js_div_def fl_nonneg)
qed

subsection \<open>The counting loop and the score\<close>

lemma count_loop_filter:
  "count_loop bytes1 bytes2 n i k =
     k + length (filter (\<lambda>j. \<bar>uint (bytes1 ! j) - uint (bytes2 ! j)\<bar> \<le> 5) [i..<n])"
proof (induction bytes1 bytes2 n i k rule: count_loop.induct)
  case (1 bytes1 bytes2 n i k)
  show ?case
  proof (cases "i < n")
    case True
    then show ?thesis
      using "1.IH" [OF True]
      by (subst count_loop.simps) (simp add: upt_conv_Cons)
  next
    case False
    then show ?thesis
      by (subst count_loop.simps) simp
  qed
qed

lemma count_loop_card:
  "count_loop bytes1 bytes2 n 0 0 =
     card {j. j < n \<and> \<bar>uint (bytes1 ! j) - uint (bytes2 ! j)\<bar> \<le> 5}"
proof -
  have "{x. \<bar>uint (bytes1 ! x) - uint (bytes2 ! x)\<bar> \<le> 5} \<inter> set [0..<n]
      = {j. j < n \<and> \<bar>uint (bytes1 ! j) - uint (bytes2 ! j)\<bar> \<le> 5}"
    by auto
  then show ?thesis
    by (simp add: count_loop_filter distinct_length_filter)
qed

lemma count_loop_sym:
  "count_loop bytes1 bytes2 n i k = count_loop bytes2 bytes1 n i k"
  by (simp add: count_loop_filter abs_minus_commute)

lemma count_loop_le: "count_loop bytes1 bytes2 n 0 0 \<le> n"
proof -
  have "length (filter (\<lambda>j. \<bar>uint (bytes1 ! j) - uint (bytes2 ! j)\<bar> \<le> 5) [0..<n]) \<le> length [0..<n]"
    by (rule length_filter_le)
  then show ?thesis by (simp add: count_loop_filter)
qed

lemma fl_seventy: "fl (fl (7 / 10) * 100) = 70"
  by code_simp

lemma js_error_unique: "(e1 :: js_error) = e2"
  by (cases e1; cases e2) simp

lemma compare_empty_decoding:
  assumes "raw t1 \<noteq> raw t2"
    and "base64ToArrayBuffer (raw t1) = Inr bytes1"
    and "base64ToArrayBuffer (raw t2) = Inr bytes2"
    and "min (length bytes1) (length bytes2) = 0"
  shows "compareFingerprints (Some t1) (Some t2) = Inr \<lparr>matched = False, score = NaN\<rparr>"
proof -
  have "count_loop bytes1 bytes2 0 0 0 = 0"
    by (subst count_loop.simps) simp
  then show ?thesis
    using assms by (simp add: compareFingerprints_def Let_def js_div_def)
qed

text \<open>
  A returned score is \<open>NaN\<close> or lies between 0 and 100; \<open>NaN\<close> arises only from the
  division of zero by the zero minimum length above.
\<close>

lemma compare_score_cases:
  assumes "compareFingerprints a b = Inr r"
  shows "score r = NaN \<or> (\<exists>q. score r = Num q \<and> 0 \<le> q \<and> q \<le> 100)"
proof (cases "\<exists>t1 t2 bytes1 bytes2. a = Some t1 \<and> b = Some t2 \<and> raw t1 \<noteq> raw t2 \<and>
    base64ToArrayBuffer (raw t1) = Inr bytes1 \<and> base64ToArrayBuffer (raw t2) = Inr bytes2")
  case True
  then obtain t1 t2 bytes1 bytes2 where h: "a = Some t1" "b = Some t2" "raw t1 \<noteq> raw t2"
      "base64ToArrayBuffer (raw t1) = Inr bytes1" "base64ToArrayBuffer (raw t2) = Inr bytes2"
    by blast
  let ?n = "min (length bytes1) (length bytes2)"
  let ?k = "count_loop bytes1 bytes2 ?n 0 0"
  have r: "score r = js_mul (js_div ?k ?n) 100"
    using assms h by (auto simp add: compareFingerprints_def Let_def)
  show ?thesis
  proof (cases "?n = 0")
    case True
    then have "?k = 0"
      using count_loop_le [of bytes1 bytes2 ?n] by simp
    then show ?thesis
      using True r by (simp add: js_div_def)
  next
    case False
    then have "0 < ?n" by simp
    then show ?thesis
      using score_in_range [OF count_loop_le, of ?n bytes1 bytes2] r by simp
  qed
next
  case False
  then have "score r = Num 0 \<or> score r = Num 100"
    using assms
    by (auto simp add: compareFingerprints_def Let_def split: option.splits if_splits sum.splits)
  then show ?thesis by auto
qed

text \<open>
  With the arguments swapped the matcher computes the same thing: it returns the same
  verdict and the same score value, or throws the same error. The decoded lengths enter
  only through their minimum and the tolerance test only through an absolute difference.
\<close>

lemma compare_swap: "compareFingerprints a b = compareFingerprints b a"
proof (cases a)
  case None
  then show ?thesis by (cases b) (simp_all add: compareFingerprints_def)
next
  case (Some t1)
  note a = Some
  show ?thesis
  proof (cases b)
    case None
    then show ?thesis by (simp add: compareFingerprints_def a)
  next
    case (Some t2)
    show ?thesis
    proof (cases "raw t1 = raw t2")
      case True
      then show ?thesis by (simp add: compareFingerprints_def a Some)
    next
      case False
      then have ne: "raw t2 \<noteq> raw t1" by simp
      show ?thesis
      proof (cases "base64ToArrayBuffer (raw t1)")
        case (Inl e1)
        then show ?thesis
          using False ne
          by (cases "base64ToArrayBuffer (raw t2)")
            (simp_all add: compareFingerprints_def a Some js_error_unique [of e1])
      next
        case (Inr bytes1)
        note b1 = Inr
        show ?thesis
        proof (cases "base64ToArrayBuffer (raw t2)")
          case (Inl e2)
          then show ?thesis
            using False ne b1 by (simp add: compareFingerprints_def a Some)
        next
          case (Inr bytes2)
          then show ?thesis
            using False ne b1
            by (simp add: compareFingerprints_def a Some Let_def min.commute
                count_loop_sym [of bytes1 bytes2])
        qed
      qed
    qed
  qed
qed

text \<open>
  Hence a score that is a number is equal, in the sense of \<^verbatim>\<open>==\<close>, to the score of the
  swapped call.
\<close>

lemma js_equals_refl: "x \<noteq> NaN \<Longrightarrow> js_equals x x"
  by (cases x) simp_all

lemma compare_swap_scores:
  assumes "compareFingerprints a b = Inr v" and "score v \<noteq> NaN"
  shows "\<exists>w. compareFingerprints b a = Inr w \<and> js_equals (score v) (score w)"
proof -
  have "compareFingerprints b a = Inr v"
    using assms(1) by (simp add: compare_swap [of b a])
  moreover have "js_equals (score v) (score v)"
    using assms(2) by (rule js_equals_refl)
  ultimately show ?thesis
    by blast
qed

lemma zip_as_map_nth:
  "zip xs ys = map (\<lambda>j. (xs ! j, ys ! j)) [0..<min (length xs) (length ys)]"
  by (rule nth_equalityI) simp_all

lemma count_loop_zip:
  "count_loop bytes1 bytes2 (min (length bytes1) (length bytes2)) 0 0 =
     length (filter (\<lambda>(x, y). \<bar>uint x - uint y\<bar> \<le> 5) (zip bytes1 bytes2))"
proof -
  have "filter (\<lambda>(x, y). \<bar>uint x - uint y\<bar> \<le> 5) (zip bytes1 bytes2) =
      map (\<lambda>j. (bytes1 ! j, bytes2 ! j))
        (filter (\<lambda>j. \<bar>uint (bytes1 ! j) - uint (bytes2 ! j)\<bar> \<le> 5)
          [0..<min (length bytes1) (length bytes2)])"
    by (subst zip_as_map_nth) (simp add: filter_map comp_def)
  then show ?thesis
    by (simp add: count_loop_filter)
qed

lemma js_div_seven_tenths:
  assumes "10 * k = 7 * n" and "0 < n"
  shows "js_div k n = Num (fl (7 / 10))"
proof -
  have "(of_nat (10 * k) :: rat) = of_nat (7 * n)"
    using assms(1) by simp
  then have "(10 :: rat) * of_nat k = 7 * of_nat n"
    by simp
  moreover have "(of_nat n :: rat) \<noteq> 0"
    using assms(2) by simp
  ultimately have eq: "(of_nat k :: rat) / of_nat n = 7 / 10"
    by (simp add: field_simps)
  from assms(2) have "n \<noteq> 0" by simp
  then show ?thesis
    by (simp add: js_div_def eq)
qed

subsection \<open>Claims about the matcher\<close>

text \<open>
  Claim C8. The verdict uses the strict threshold: whenever the matcher returns, \<open>matched\<close>
  is the JavaScript comparison \<open>score > 70\<close>. In particular, for two different payloads that
  decode to the same positive length, with exactly seven tenths of the positions within the
  tolerance 5 (the others differ by more than 5), the score is exactly 70 after both
  roundings and the verdict is negative.
\<close>

theorem compare_strict_threshold:
  "(compareFingerprints a b = Inr r \<longrightarrow> matched r = js_gt (score r) 70) \<and>
   (raw t1 \<noteq> raw t2 \<and>
    base64ToArrayBuffer (raw t1) = Inr bytes1 \<and>
    base64ToArrayBuffer (raw t2) = Inr bytes2 \<and>
    length bytes1 = length bytes2 \<and> 0 < length bytes1 \<and>
    10 * length (filter (\<lambda>(x, y). \<bar>uint x - uint y\<bar> \<le> 5) (zip bytes1 bytes2)) =
      7 * length bytes1
    \<longrightarrow> compareFingerprints (Some t1) (Some t2) = Inr \<lparr>matched = False, score = Num 70\<rparr>)"
proof (intro conjI impI)
  assume "compareFingerprints a b = Inr r"
  then show "matched r = js_gt (score r) 70"
    by (auto simp add: compareFingerprints_def Let_def
        split: option.splits if_splits sum.splits)
next
  assume h: "raw t1 \<noteq> raw t2 \<and>
    base64ToArrayBuffer (raw t1) = Inr bytes1 \<and>
    base64ToArrayBuffer (raw t2) = Inr bytes2 \<and>
    length bytes1 = length bytes2 \<and> 0 < length bytes1 \<and>
    10 * length (filter (\<lambda>(x, y). \<bar>uint x - uint y\<bar> \<le> 5) (zip bytes1 bytes2)) =
      7 * length bytes1"
  then have ne: "raw t1 \<noteq> raw t2"
    and d1: "base64ToArrayBuffer (raw t1) = Inr bytes1"
    and d2: "base64ToArrayBuffer (raw t2) = Inr bytes2"
    and len: "min (length bytes1) (length bytes2) = length bytes1"
    and pos: "0 < length bytes1"
    and seventy: "10 * length (filter (\<lambda>(x, y). \<bar>uint x - uint y\<bar> \<le> 5) (zip bytes1 bytes2)) =
      7 * length bytes1"
    by auto
  have "count_loop bytes1 bytes2 (length bytes1) 0 0 =
      length (filter (\<lambda>(x, y). \<bar>uint x - uint y\<bar> \<le> 5) (zip bytes1 bytes2))"
    using count_loop_zip [of bytes1 bytes2] by (simp only: len)
  then have "10 * count_loop bytes1 bytes2 (length bytes1) 0 0 = 7 * length bytes1"
    using seventy by simp
  then have "js_div (count_loop bytes1 bytes2 (length bytes1) 0 0) (length bytes1) =
      Num (fl (7 / 10))"
    using pos by (rule js_div_seven_tenths)
  then show "compareFingerprints (Some t1) (Some t2) = Inr \<lparr>matched = False, score = Num 70\<rparr>"
    by (simp add: compareFingerprints_def Let_def fl_seventy ne d1 d2 len)
qed

text \<open>
  The two ten-byte captures meet the hypotheses: seven of ten positions agree, the score is
  70.
\<close>

theorem compare_strict_threshold_witness:
  "compareFingerprints (Some boundary_a) (Some boundary_b) = Inr \<lparr>matched = False, score = Num 70\<rparr> \<and>
   matched \<lparr>matched = False, score = Num 70\<rparr> = js_gt (score \<lparr>matched = False, score = Num 70\<rparr>) 70 \<and>
   raw boundary_a \<noteq> raw boundary_b \<and>
   base64ToArrayBuffer (raw boundary_a) = Inr [0, 0, 0, 0, 0, 0, 0, 0, 0, 0] \<and>
   base64ToArrayBuffer (raw boundary_b) = Inr [0, 0, 0, 0, 0, 0, 0, 255, 255, 255] \<and>
   10 * length (filter (\<lambda>(x, y). \<bar>uint x - uint y\<bar> \<le> 5)
     (zip [0, 0, 0, 0, 0, 0, 0, 0, 0, 0 :: byte] [0, 0, 0, 0, 0, 0, 0, 255, 255, 255 :: byte])) = 7 * 10"
proof -
  have d1: "base64ToArrayBuffer (raw boundary_a) = Inr [0, 0, 0, 0, 0, 0, 0, 0, 0, 0]"
    by code_simp
  have d2: "base64ToArrayBuffer (raw boundary_b) = Inr [0, 0, 0, 0, 0, 0, 0, 255, 255, 255]"
    by code_simp
  have ne: "raw boundary_a \<noteq> raw boundary_b"
    by (simp add: boundary_a_def boundary_b_def)
  have cnt: "10 * length (filter (\<lambda>(x, y). \<bar>uint x - uint y\<bar> \<le> 5)
     (zip [0, 0, 0, 0, 0, 0, 0, 0, 0, 0 :: byte] [0, 0, 0, 0, 0, 0, 0, 255, 255, 255 :: byte])) = 7 * 10"
    by simp
  have res: "compareFingerprints (Some boundary_a) (Some boundary_b) =
      Inr \<lparr>matched = False, score = Num 70\<rparr>"
    using compare_strict_threshold [of "Some boundary_a" "Some boundary_b"
        "\<lparr>matched = False, score = Num 70\<rparr>" boundary_a boundary_b
        "[0, 0, 0, 0, 0, 0, 0, 0, 0, 0]" "[0, 0, 0, 0, 0, 0, 0, 255, 255, 255]"]
      d1 d2 ne cnt by simp
  have m: "matched \<lparr>matched = False, score = Num 70\<rparr> =
      js_gt (score \<lparr>matched = False, score = Num 70\<rparr>) 70"
    using compare_strict_threshold [of "Some boundary_a" "Some boundary_b"
        "\<lparr>matched = False, score = Num 70\<rparr>" boundary_a boundary_b
        "[0, 0, 0, 0, 0, 0, 0, 0, 0, 0]" "[0, 0, 0, 0, 0, 0, 0, 255, 255, 255]"]
      res by simp
  show ?thesis
    using res m ne d1 d2 cnt by simp
qed


text \<open>
  Claim C2. The empty payload and the payload \<^verbatim>\<open>QQ==\<close> differ, and the empty one decodes
  to no byte, so the minimum decoded length is 0. The loop does not run and the score is
  \<^verbatim>\<open>(0 / 0) * 100\<close>, which is \<open>NaN\<close>: the verdict is negative, but the score is neither 0
  nor a value of the interval from 0 to 100.
\<close>

theorem compare_zero_length_is_nan:
  "compareFingerprints (Some empty_capture) (Some one_byte_capture) =
     Inr \<lparr>matched = False, score = NaN\<rparr>"
  by code_simp

text \<open>
  Claim C9. For the empty payload and the payload \<^verbatim>\<open>QQ==\<close> the matcher returns in both orders
  of the arguments, and the score is \<open>NaN\<close> in both (the minimum decoded length is 0, as for
  claim C2). The comparison \<^verbatim>\<open>compare(a, b).score == compare(b, a).score\<close> is false for
  this pair, since \<open>NaN\<close> is not equal to itself.
\<close>

theorem compare_scores_not_equal:
  "compareFingerprints (Some empty_capture) (Some one_byte_capture) =
     Inr \<lparr>matched = False, score = NaN\<rparr> \<and>
   compareFingerprints (Some one_byte_capture) (Some empty_capture) =
     Inr \<lparr>matched = False, score = NaN\<rparr> \<and>
   \<not> js_equals (score \<lparr>matched = False, score = NaN\<rparr>)
       (score \<lparr>matched = False, score = NaN\<rparr>)"
proof -
  have "compareFingerprints (Some empty_capture) (Some one_byte_capture) =
      Inr \<lparr>matched = False, score = NaN\<rparr>"
    by code_simp
  moreover have "compareFingerprints (Some one_byte_capture) (Some empty_capture) =
      Inr \<lparr>matched = False, score = NaN\<rparr>"
    by code_simp
  ultimately show ?thesis
    by simp
qed

section \<open>Properties of the store operations\<close>

subsection \<open>Auxiliary facts\<close>

lemma firestore_call_frame:
  "funcionarios (snd (firestore_call s)) = funcionarios s"
  "registros (snd (firestore_call s)) = registros s"
  "next_ident (snd (firestore_call s)) = next_ident s"
  by (simp_all add: firestore_call_def split: list.split)

lemma firestore_call_rejected:
  "faults s = True # rest \<Longrightarrow> firestore_call s = (False, s\<lparr>faults := rest\<rparr>)"
  by (simp add: firestore_call_def)

lemma sorted_le_last: "sorted zs \<Longrightarrow> z \<in> set zs \<Longrightarrow> z \<le> last zs"
  by (induction zs) auto

lemma newest_first:
  assumes "xs \<noteq> []"
  shows "\<exists>u rest. rev (sort_key k xs) = u # rest \<and> u \<in> set xs \<and> (\<forall>r \<in> set xs. k r \<le> k u)"
proof -
  let ?ys = "sort_key k xs"
  have ne: "?ys \<noteq> []"
    using assms by (metis length_0_conv length_sort)
  have srt: "sorted (map k ?ys)"
    by simp
  have top: "\<forall>r \<in> set xs. k r \<le> k (last ?ys)"
  proof
    fix r assume "r \<in> set xs"
    then have "k r \<in> set (map k ?ys)" by simp
    then have "k r \<le> last (map k ?ys)" using srt by (rule sorted_le_last [rotated])
    then show "k r \<le> k (last ?ys)" using ne by (simp add: last_map)
  qed
  have "rev ?ys = last ?ys # rev (butlast ?ys)"
    using ne by (metis append_butlast_last_id rev.simps(2) rev_append rev_rev_ident append_Cons append_Nil)
  moreover have "last ?ys \<in> set xs"
    using ne last_in_set [of ?ys] by simp
  ultimately show ?thesis using top by blast
qed

lemma saida_neq_entrada: "saida \<noteq> entrada"
  by (simp add: saida_def entrada_def)

lemma determinarTipoRegistro_rejected:
  assumes "faults s = True # rest"
  shows "determinarTipoRegistro cal s hoje f = (entrada, s\<lparr>faults := rest\<rparr>)"
  using assms by (simp add: determinarTipoRegistro_def firestore_call_rejected)

lemma determinarTipoRegistro_store:
  "snd (determinarTipoRegistro cal s hoje f) = snd (firestore_call s)"
  by (cases "firestore_call s")
    (auto simp add: determinarTipoRegistro_def Let_def split: list.splits bool.splits)

lemma determinarTipoRegistro_unanswered:
  assumes "\<not> fst (firestore_call s)"
  shows "fst (determinarTipoRegistro cal s hoje f) = entrada"
  using assms by (cases "firestore_call s") (simp add: determinarTipoRegistro_def)

lemma determinarTipoRegistro_no_record:
  assumes "fst (firestore_call s)"
    and "registros_desde s (meia_noite cal hoje) f = {}"
  shows "fst (determinarTipoRegistro cal s hoje f) = entrada"
proof -
  obtain s1 where c1: "firestore_call s = (True, s1)"
    using assms(1) by (cases "firestore_call s") simp
  have f1: "registros s1 = registros s"
    using firestore_call_frame(2) [of s] c1 by simp
  have "set (filter (\<lambda>r. funcionarioId r = f \<and> meia_noite cal hoje \<le> horario r) (registros s)) =
      registros_desde s (meia_noite cal hoje) f"
    by (auto simp add: registros_desde_def)
  then have "filter (\<lambda>r. funcionarioId r = f \<and> meia_noite cal hoje \<le> horario r) (registros s) = []"
    using assms(2) by (simp only: set_empty [symmetric])
  then show ?thesis
    using c1 f1 by (simp add: determinarTipoRegistro_def ultimo_registro_query_def)
qed

lemma determinarTipoRegistro_latest:
  assumes "fst (firestore_call s)"
    and "registros_desde s (meia_noite cal hoje) f \<noteq> {}"
  shows "\<exists>u \<in> registros_desde s (meia_noite cal hoje) f.
      (\<forall>r \<in> registros_desde s (meia_noite cal hoje) f. horario r \<le> horario u) \<and>
      fst (determinarTipoRegistro cal s hoje f) = (if tipo u = entrada then saida else entrada)"
proof -
  obtain s1 where c1: "firestore_call s = (True, s1)"
    using assms(1) by (cases "firestore_call s") simp
  have f1: "registros s1 = registros s"
    using firestore_call_frame(2) [of s] c1 by simp
  let ?janela = "filter (\<lambda>r. funcionarioId r = f \<and> meia_noite cal hoje \<le> horario r) (registros s)"
  have janela: "set ?janela = registros_desde s (meia_noite cal hoje) f"
    by (auto simp add: registros_desde_def)
  have "set ?janela \<noteq> {}"
    using assms(2) janela by simp
  then have "?janela \<noteq> []"
    using set_empty [of ?janela] by blast
  then obtain u rest where
    q: "rev (sort_key (\<lambda>r. (horario r, reg_ident r)) ?janela) = u # rest"
    and u: "u \<in> set ?janela"
    and top: "\<forall>r \<in> set ?janela. (horario r, reg_ident r) \<le> (horario u, reg_ident u)"
    using newest_first [of ?janela "\<lambda>r. (horario r, reg_ident r)"] by blast
  have "fst (determinarTipoRegistro cal s hoje f) = (if tipo u = entrada then saida else entrada)"
    using c1 f1 q by (simp add: determinarTipoRegistro_def ultimo_registro_query_def)
  moreover have "\<forall>r \<in> registros_desde s (meia_noite cal hoje) f. horario r \<le> horario u"
    using top janela by auto
  moreover have "u \<in> registros_desde s (meia_noite cal hoje) f"
    using u by (simp only: janela)
  ultimately show ?thesis
    by blast
qed

lemma registrarPonto_written:
  assumes "fst (firestore_call (snd (firestore_call s)))"
  shows "fst (registrarPonto cal s agora hoje f d) =
      Inr \<lparr>ponto_id = next_ident s, ponto_tipo = fst (determinarTipoRegistro cal s hoje f),
           ponto_horario = agora\<rparr>"
    and "registros (snd (registrarPonto cal s agora hoje f d)) =
      registros s @ [\<lparr>reg_ident = next_ident s, funcionarioId = f, reg_nome = nome d,
                       tipo = fst (determinarTipoRegistro cal s hoje f), horario = agora,
                       reg_data = data_pt_BR cal agora\<rparr>]"
proof -
  obtain T s1 where t: "determinarTipoRegistro cal s hoje f = (T, s1)"
    by (cases "determinarTipoRegistro cal s hoje f")
  then have s1: "s1 = snd (firestore_call s)"
    using determinarTipoRegistro_store [of cal s hoje f] by simp
  obtain s2 where c2: "firestore_call s1 = (True, s2)"
    using assms s1 by (cases "firestore_call s1") simp
  have f2: "registros s2 = registros s" "next_ident s2 = next_ident s"
    using firestore_call_frame(2,3) [of s1] firestore_call_frame(2,3) [of s] c2 s1 by simp_all
  show "fst (registrarPonto cal s agora hoje f d) =
      Inr \<lparr>ponto_id = next_ident s, ponto_tipo = fst (determinarTipoRegistro cal s hoje f),
           ponto_horario = agora\<rparr>"
    using t c2 f2 by (simp add: registrarPonto_def Let_def)
  show "registros (snd (registrarPonto cal s agora hoje f d)) =
      registros s @ [\<lparr>reg_ident = next_ident s, funcionarioId = f, reg_nome = nome d,
                       tipo = fst (determinarTipoRegistro cal s hoje f), horario = agora,
                       reg_data = data_pt_BR cal agora\<rparr>]"
    using t c2 f2 by (simp add: registrarPonto_def Let_def)
qed

lemma registrarPonto_not_written:
  assumes "\<not> fst (firestore_call (snd (firestore_call s)))"
  shows "fst (registrarPonto cal s agora hoje f d) = Inl StoreUnavailable"
    and "registros (snd (registrarPonto cal s agora hoje f d)) = registros s"
proof -
  obtain T s1 where t: "determinarTipoRegistro cal s hoje f = (T, s1)"
    by (cases "determinarTipoRegistro cal s hoje f")
  then have s1: "s1 = snd (firestore_call s)"
    using determinarTipoRegistro_store [of cal s hoje f] by simp
  obtain s2 where c2: "firestore_call s1 = (False, s2)"
    using assms s1 by (cases "firestore_call s1") simp
  have f2: "registros s2 = registros s"
    using firestore_call_frame(2) [of s1] firestore_call_frame(2) [of s] c2 s1 by simp
  show "fst (registrarPonto cal s agora hoje f d) = Inl StoreUnavailable"
    using t c2 by (simp add: registrarPonto_def)
  show "registros (snd (registrarPonto cal s agora hoje f d)) = registros s"
    using t c2 f2 by (simp add: registrarPonto_def)
qed

lemma buscar_exata_cases:
  "buscarFuncionarioPorDigitalExata s r =
     (if \<not> fst (firestore_call s) then (Inl StoreUnavailable, snd (firestore_call s))
      else case filter (\<lambda>f. map_option dados (digital f) = Some r \<and> ativo f) (funcionarios s) of
             [] \<Rightarrow> (Inr None, snd (firestore_call s))
           | doc # _ \<Rightarrow> (Inr (Some doc), snd (firestore_call s)))"
  by (cases "firestore_call s") (auto simp add: buscarFuncionarioPorDigitalExata_def
      firestore_call_def split: list.splits bool.splits)

lemma buscar_exata_frame:
  "funcionarios (snd (buscarFuncionarioPorDigitalExata s r)) = funcionarios s"
  "next_ident (snd (buscarFuncionarioPorDigitalExata s r)) = next_ident s"
  "registros (snd (buscarFuncionarioPorDigitalExata s r)) = registros s"
  by (simp_all add: buscar_exata_cases firestore_call_frame split: list.split)

lemma buscar_exata_found:
  assumes "\<exists>f \<in> set (funcionarios s). ativo f \<and> map_option dados (digital f) = Some r"
  shows "fst (buscarFuncionarioPorDigitalExata s r) \<noteq> Inr None"
proof -
  have "filter (\<lambda>f. map_option dados (digital f) = Some r \<and> ativo f) (funcionarios s) \<noteq> []"
    using assms by (auto simp add: filter_empty_conv)
  then show ?thesis
    by (auto simp add: buscar_exata_cases split: list.splits)
qed

lemma buscar_exata_not_found:
  assumes "fst (buscarFuncionarioPorDigitalExata s r) = Inr None"
  shows "\<forall>f \<in> set (funcionarios s). \<not> (ativo f \<and> map_option dados (digital f) = Some r)"
  using assms buscar_exata_found [of s r] by blast

lemma cadastrar_error_frame:
  assumes "fst (FirebaseService_cadastrarFuncionario s p t) = Inl e"
  shows "funcionarios (snd (FirebaseService_cadastrarFuncionario s p t)) = funcionarios s"
proof (cases "buscarFuncionarioPorDigitalExata s (raw t)")
  case (Pair r s1)
  then have fr: "funcionarios s1 = funcionarios s"
    using buscar_exata_frame(1) [of s "raw t"] by simp
  show ?thesis
  proof (cases r)
    case (Inl e')
    then show ?thesis using Pair fr by (simp add: FirebaseService_cadastrarFuncionario_def)
  next
    case (Inr found)
    show ?thesis
    proof (cases found)
      case (Some a)
      then show ?thesis using Pair Inr fr by (simp add: FirebaseService_cadastrarFuncionario_def)
    next
      case None
      show ?thesis
      proof (cases "firestore_call s1")
        case (Pair ok s2)
        then have "funcionarios s2 = funcionarios s"
          using firestore_call_frame(1) [of s1] fr by simp
        then show ?thesis
          using assms \<open>buscarFuncionarioPorDigitalExata s (raw t) = (r, s1)\<close> Inr None Pair
          by (cases ok) (simp_all add: FirebaseService_cadastrarFuncionario_def Let_def)
      qed
    qed
  qed
qed

lemma cadastrar_success:
  assumes "fst (FirebaseService_cadastrarFuncionario s p t) = Inr i"
  shows "fst (buscarFuncionarioPorDigitalExata s (raw t)) = Inr None \<and>
    (\<exists>doc. funcionarios (snd (FirebaseService_cadastrarFuncionario s p t)) = funcionarios s @ [doc] \<and>
       ativo doc \<and> digital doc = Some \<lparr>formato = format t, dados = raw t\<rparr>)"
proof (cases "buscarFuncionarioPorDigitalExata s (raw t)")
  case (Pair r s1)
  then have fr: "funcionarios s1 = funcionarios s"
    using buscar_exata_frame(1) [of s "raw t"] by simp
  show ?thesis
  proof (cases r)
    case (Inl e')
    then show ?thesis using assms Pair by (simp add: FirebaseService_cadastrarFuncionario_def)
  next
    case (Inr found)
    show ?thesis
    proof (cases found)
      case (Some a)
      then show ?thesis using assms Pair Inr by (simp add: FirebaseService_cadastrarFuncionario_def)
    next
      case None
      show ?thesis
      proof (cases "firestore_call s1")
        case (Pair ok s2)
        then have "funcionarios s2 = funcionarios s"
          using firestore_call_frame(1) [of s1] fr by simp
        then show ?thesis
          using assms \<open>buscarFuncionarioPorDigitalExata s (raw t) = (r, s1)\<close> Inr None Pair
          by (cases ok) (simp_all add: FirebaseService_cadastrarFuncionario_def Let_def)
      qed
    qed
  qed
qed

lemma cadastrar_duplicate:
  assumes "\<exists>f \<in> set (funcionarios s). ativo f \<and> map_option dados (digital f) = Some (raw t)"
  shows "fst (FirebaseService_cadastrarFuncionario s p t) =
      Inl (if fst (firestore_call s) then DuplicateTemplate else StoreUnavailable)"
proof -
  have "filter (\<lambda>f. map_option dados (digital f) = Some (raw t) \<and> ativo f) (funcionarios s) \<noteq> []"
    using assms by (auto simp add: filter_empty_conv)
  then show ?thesis
    by (auto simp add: FirebaseService_cadastrarFuncionario_def buscar_exata_cases
        split: list.splits)
qed

lemma digitais_ativas_append:
  "funcionarios s' = funcionarios s @ [doc] \<Longrightarrow> ativo doc \<Longrightarrow> digital doc = Some d \<Longrightarrow>
     digitais_ativas s' = digitais_ativas s @ [Some (dados d)]"
  by (simp add: digitais_ativas_def)

lemma digitais_ativas_cong:
  "funcionarios s' = funcionarios s \<Longrightarrow> digitais_ativas s' = digitais_ativas s"
  by (simp add: digitais_ativas_def)

lemma digitais_ativas_mem:
  "Some r \<in> set (digitais_ativas s) \<longleftrightarrow>
     (\<exists>f \<in> set (funcionarios s). ativo f \<and> map_option dados (digital f) = Some r)"
  by (force simp add: digitais_ativas_def)

lemma second_enrolment_rejected:
  assumes first: "FirebaseService_cadastrarFuncionario s p1 t1 = (Inr i, s1)"
    and same: "raw t2 = raw t1"
    and ok: "fst (firestore_call s1)"
  shows "fst (FirebaseService_cadastrarFuncionario s1 p2 t2) = Inl DuplicateTemplate"
proof -
  have "fst (FirebaseService_cadastrarFuncionario s p1 t1) = Inr i"
    by (simp add: first)
  then obtain doc where "funcionarios (snd (FirebaseService_cadastrarFuncionario s p1 t1)) =
      funcionarios s @ [doc]" "ativo doc"
      "digital doc = Some \<lparr>formato = format t1, dados = raw t1\<rparr>"
    using cadastrar_success [of s p1 t1 i] by blast
  then have "doc \<in> set (funcionarios s1)" "ativo doc" "map_option dados (digital doc) = Some (raw t2)"
    by (simp_all add: first same)
  then have "\<exists>f \<in> set (funcionarios s1). ativo f \<and> map_option dados (digital f) = Some (raw t2)"
    by blast
  then have "fst (FirebaseService_cadastrarFuncionario s1 p2 t2) =
      Inl (if fst (firestore_call s1) then DuplicateTemplate else StoreUnavailable)"
    by (rule cadastrar_duplicate)
  then show ?thesis
    by (simp add: ok)
qed

lemma cadastrar_keeps_distinct:
  assumes d: "distinct (digitais_ativas s)"
  shows "distinct (digitais_ativas (snd (FirebaseService_cadastrarFuncionario s p t)))"
proof (cases "fst (FirebaseService_cadastrarFuncionario s p t)")
  case (Inl e)
  then have "funcionarios (snd (FirebaseService_cadastrarFuncionario s p t)) = funcionarios s"
    by (rule cadastrar_error_frame)
  then have "digitais_ativas (snd (FirebaseService_cadastrarFuncionario s p t)) = digitais_ativas s"
    by (rule digitais_ativas_cong)
  then show ?thesis
    using d by simp
next
  case (Inr j)
  then obtain doc where doc: "funcionarios (snd (FirebaseService_cadastrarFuncionario s p t)) =
      funcionarios s @ [doc]" "ativo doc"
      "digital doc = Some \<lparr>formato = format t, dados = raw t\<rparr>"
    and miss: "fst (buscarFuncionarioPorDigitalExata s (raw t)) = Inr None"
    using cadastrar_success [of s p t j] by blast
  have "Some (raw t) \<notin> set (digitais_ativas s)"
    using buscar_exata_not_found [OF miss] by (simp add: digitais_ativas_mem)
  moreover have "digitais_ativas (snd (FirebaseService_cadastrarFuncionario s p t)) =
      digitais_ativas s @ [Some (raw t)]"
    using digitais_ativas_append [OF doc] by simp
  ultimately show ?thesis
    using d by simp
qed

subsection \<open>The attendance type\<close>

text \<open>
  Claim C1, as the code has it. There is no configuration switch: when the query for the last
  record is rejected, \<^verbatim>\<open>determinarTipoRegistro\<close> swallows the error in its \<^verbatim>\<open>catch\<close> block and
  returns \<^verbatim>\<open>"entrada"\<close> whatever the employee's last record is; the failure does not reach
  \<^verbatim>\<open>registrarPonto\<close>, which goes on to write the record. When that write is accepted the
  event succeeds with type \<^verbatim>\<open>"entrada"\<close> and a record of this type is appended.
\<close>

theorem lookup_failure_defaults_to_entrada:
  assumes "faults s = True # rest"
    and "fst (firestore_call (s\<lparr>faults := rest\<rparr>))"
  shows "determinarTipoRegistro cal s hoje f = (entrada, s\<lparr>faults := rest\<rparr>) \<and>
    fst (registrarPonto cal s agora hoje f d) =
      Inr \<lparr>ponto_id = next_ident s, ponto_tipo = entrada, ponto_horario = agora\<rparr> \<and>
    registros (snd (registrarPonto cal s agora hoje f d)) =
      registros s @ [\<lparr>reg_ident = next_ident s, funcionarioId = f, reg_nome = nome d,
                       tipo = entrada, horario = agora, reg_data = data_pt_BR cal agora\<rparr>]"
proof -
  have t: "determinarTipoRegistro cal s hoje f = (entrada, s\<lparr>faults := rest\<rparr>)"
    using assms(1) by (rule determinarTipoRegistro_rejected)
  obtain s2 where c: "firestore_call (s\<lparr>faults := rest\<rparr>) = (True, s2)"
    using assms(2) by (cases "firestore_call (s\<lparr>faults := rest\<rparr>)") simp
  have "registros s2 = registros s" "next_ident s2 = next_ident s"
    using firestore_call_frame(2,3) [of "s\<lparr>faults := rest\<rparr>"] c by simp_all
  then show ?thesis
    using t c by (simp add: registrarPonto_def Let_def)
qed

text \<open>
  The hypotheses hold in the store with an entry record whose next query is rejected.
\<close>

theorem lookup_failure_defaults_to_entrada_witness:
  "faults (loja_com_entrada\<lparr>faults := [True]\<rparr>) = True # [] \<and>
   fst (firestore_call (loja_com_entrada\<lparr>faults := [True], faults := []\<rparr>)) \<and>
   determinarTipoRegistro calendario_utc (loja_com_entrada\<lparr>faults := [True]\<rparr>) tarde 1 =
     (entrada, loja_com_entrada\<lparr>faults := [True], faults := []\<rparr>) \<and>
   fst (registrarPonto calendario_utc (loja_com_entrada\<lparr>faults := [True]\<rparr>) tarde tarde 1 ana) =
     Inr \<lparr>ponto_id = 8, ponto_tipo = entrada, ponto_horario = tarde\<rparr>"
proof -
  have h1: "faults (loja_com_entrada\<lparr>faults := [True]\<rparr>) = True # []"
    by simp
  have h2: "fst (firestore_call (loja_com_entrada\<lparr>faults := [True], faults := []\<rparr>))"
    by (simp add: firestore_call_def)
  have n: "next_ident (loja_com_entrada\<lparr>faults := [True]\<rparr>) = 8"
    by (simp add: loja_com_entrada_def)
  show ?thesis
    using lookup_failure_defaults_to_entrada [OF h1 h2, of calendario_utc tarde 1 tarde ana] h1 h2 n
    by simp
qed

text \<open>
  The claim C1 as it was stated fails: the employee's last record of the day is an entry, the
  query for it is rejected, and the event is not fatal. It succeeds with the fabricated type
  \<^verbatim>\<open>"entrada"\<close>, leaving two entries in a row.
\<close>

theorem lookup_failure_not_fatal:
  "fst (registrarPonto calendario_utc (loja_com_entrada\<lparr>faults := [True]\<rparr>) tarde tarde 1 ana) =
     Inr \<lparr>ponto_id = 8, ponto_tipo = entrada, ponto_horario = tarde\<rparr> \<and>
   fst (registrarPonto calendario_utc (loja_com_entrada\<lparr>faults := [True]\<rparr>) tarde tarde 1 ana) \<noteq>
     Inl StoreUnavailable \<and>
   map tipo (registros (snd (registrarPonto calendario_utc (loja_com_entrada\<lparr>faults := [True]\<rparr>)
     tarde tarde 1 ana))) = [entrada, entrada]"
  by (simp add: registrarPonto_def determinarTipoRegistro_def firestore_call_def
      loja_com_entrada_def Let_def)

text \<open>
  Claim C4, as the code has it. The type of the new record is the one that
  \<^verbatim>\<open>determinarTipoRegistro\<close> returns: when the write is accepted the record is appended
  with this type, with the instant read by \<^verbatim>\<open>registrarPonto\<close> and with the date string of
  that instant; when the write is rejected no record is added. The type is decided by the
  records of the employee from the local midnight of the later clock reading of
  \<^verbatim>\<open>determinarTipoRegistro\<close> onwards, when the query for them is answered: \<^verbatim>\<open>"entrada"\<close> if
  there is none; otherwise the opposite of a most recent one, that is the exit string
  exactly when that record is an entry and \<^verbatim>\<open>"entrada"\<close> otherwise, so that the new type
  differs from it. When the query is rejected the type is \<^verbatim>\<open>"entrada"\<close> whatever the records
  are.
\<close>

theorem attendance_type_by_lookup:
  "(fst (firestore_call (snd (firestore_call s))) \<longrightarrow>
      fst (registrarPonto cal s agora hoje f d) =
        Inr \<lparr>ponto_id = next_ident s, ponto_tipo = fst (determinarTipoRegistro cal s hoje f),
             ponto_horario = agora\<rparr> \<and>
      registros (snd (registrarPonto cal s agora hoje f d)) =
        registros s @ [\<lparr>reg_ident = next_ident s, funcionarioId = f, reg_nome = nome d,
                         tipo = fst (determinarTipoRegistro cal s hoje f), horario = agora,
                         reg_data = data_pt_BR cal agora\<rparr>]) \<and>
   (\<not> fst (firestore_call (snd (firestore_call s))) \<longrightarrow>
      fst (registrarPonto cal s agora hoje f d) = Inl StoreUnavailable \<and>
      registros (snd (registrarPonto cal s agora hoje f d)) = registros s) \<and>
   (\<not> fst (firestore_call s) \<longrightarrow> fst (determinarTipoRegistro cal s hoje f) = entrada) \<and>
   (fst (firestore_call s) \<and> registros_desde s (meia_noite cal hoje) f = {} \<longrightarrow>
      fst (determinarTipoRegistro cal s hoje f) = entrada) \<and>
   (fst (firestore_call s) \<and> registros_desde s (meia_noite cal hoje) f \<noteq> {} \<longrightarrow>
      (\<exists>u \<in> registros_desde s (meia_noite cal hoje) f.
         (\<forall>r \<in> registros_desde s (meia_noite cal hoje) f. horario r \<le> horario u) \<and>
         fst (determinarTipoRegistro cal s hoje f) =
           (if tipo u = entrada then saida else entrada) \<and>
         fst (determinarTipoRegistro cal s hoje f) \<noteq> tipo u))"
proof (intro conjI impI)
  assume w: "fst (firestore_call (snd (firestore_call s)))"
  show "fst (registrarPonto cal s agora hoje f d) =
        Inr \<lparr>ponto_id = next_ident s, ponto_tipo = fst (determinarTipoRegistro cal s hoje f),
             ponto_horario = agora\<rparr>"
    using w by (rule registrarPonto_written(1))
  show "registros (snd (registrarPonto cal s agora hoje f d)) =
        registros s @ [\<lparr>reg_ident = next_ident s, funcionarioId = f, reg_nome = nome d,
                         tipo = fst (determinarTipoRegistro cal s hoje f), horario = agora,
                         reg_data = data_pt_BR cal agora\<rparr>]"
    using w by (rule registrarPonto_written(2))
next
  assume w: "\<not> fst (firestore_call (snd (firestore_call s)))"
  show "fst (registrarPonto cal s agora hoje f d) = Inl StoreUnavailable"
    using w by (rule registrarPonto_not_written(1))
  show "registros (snd (registrarPonto cal s agora hoje f d)) = registros s"
    using w by (rule registrarPonto_not_written(2))
next
  assume "\<not> fst (firestore_call s)"
  then show "fst (determinarTipoRegistro cal s hoje f) = entrada"
    by (rule determinarTipoRegistro_unanswered)
next
  assume h: "fst (firestore_call s) \<and> registros_desde s (meia_noite cal hoje) f = {}"
  from h have a: "fst (firestore_call s)" ..
  from h have e: "registros_desde s (meia_noite cal hoje) f = {}" ..
  show "fst (determinarTipoRegistro cal s hoje f) = entrada"
    using a e by (rule determinarTipoRegistro_no_record)
next
  assume h: "fst (firestore_call s) \<and> registros_desde s (meia_noite cal hoje) f \<noteq> {}"
  from h have a: "fst (firestore_call s)" ..
  from h have ne: "registros_desde s (meia_noite cal hoje) f \<noteq> {}" ..
  obtain u where u: "u \<in> registros_desde s (meia_noite cal hoje) f"
    and top: "\<forall>r \<in> registros_desde s (meia_noite cal hoje) f. horario r \<le> horario u"
    and t: "fst (determinarTipoRegistro cal s hoje f) =
      (if tipo u = entrada then saida else entrada)"
    using determinarTipoRegistro_latest [OF a ne] by blast
  have "fst (determinarTipoRegistro cal s hoje f) \<noteq> tipo u"
    using t saida_neq_entrada by auto
  then show "\<exists>u \<in> registros_desde s (meia_noite cal hoje) f.
         (\<forall>r \<in> registros_desde s (meia_noite cal hoje) f. horario r \<le> horario u) \<and>
         fst (determinarTipoRegistro cal s hoje f) =
           (if tipo u = entrada then saida else entrada) \<and>
         fst (determinarTipoRegistro cal s hoje f) \<noteq> tipo u"
    using u top t by blast
qed

text \<open>
  Four events of the employee in the time zone UTC. With an entry record of the morning the
  event of the afternoon is an exit. Without any record the event is an entry. With the
  query rejected the type is an entry although the record of the morning is one. With the
  write rejected nothing is recorded.
\<close>

theorem attendance_type_by_lookup_witness:
  "fst (firestore_call loja_com_entrada) \<and>
   fst (firestore_call (snd (firestore_call loja_com_entrada))) \<and>
   registros_desde loja_com_entrada (meia_noite calendario_utc tarde) 1 =
     {\<lparr>reg_ident = 7, funcionarioId = 1, reg_nome = ''Ana'', tipo = entrada,
       horario = manha, reg_data = ''03/11/2025''\<rparr>} \<and>
   fst (registrarPonto calendario_utc loja_com_entrada tarde tarde 1 ana) =
     Inr \<lparr>ponto_id = 8, ponto_tipo = saida, ponto_horario = tarde\<rparr> \<and>
   registros (snd (registrarPonto calendario_utc loja_com_entrada tarde tarde 1 ana)) =
     registros loja_com_entrada @
       [\<lparr>reg_ident = 8, funcionarioId = 1, reg_nome = ''Ana'', tipo = saida,
         horario = tarde, reg_data = ''03/11/2025''\<rparr>] \<and>
   fst (firestore_call loja_com_ana) \<and>
   fst (firestore_call (snd (firestore_call loja_com_ana))) \<and>
   registros_desde loja_com_ana (meia_noite calendario_utc manha) 1 = {} \<and>
   fst (registrarPonto calendario_utc loja_com_ana manha manha 1 ana) =
     Inr \<lparr>ponto_id = 2, ponto_tipo = entrada, ponto_horario = manha\<rparr> \<and>
   \<not> fst (firestore_call (loja_com_entrada\<lparr>faults := [True]\<rparr>)) \<and>
   fst (determinarTipoRegistro calendario_utc (loja_com_entrada\<lparr>faults := [True]\<rparr>) tarde 1) =
     entrada \<and>
   \<not> fst (firestore_call (snd (firestore_call (loja_com_entrada\<lparr>faults := [False, True]\<rparr>)))) \<and>
   fst (registrarPonto calendario_utc (loja_com_entrada\<lparr>faults := [False, True]\<rparr>)
     tarde tarde 1 ana) = Inl StoreUnavailable \<and>
   registros (snd (registrarPonto calendario_utc (loja_com_entrada\<lparr>faults := [False, True]\<rparr>)
     tarde tarde 1 ana)) = registros loja_com_entrada"
proof -
  let ?reg = "\<lparr>reg_ident = 7, funcionarioId = 1, reg_nome = ''Ana'', tipo = entrada,
       horario = manha, reg_data = ''03/11/2025''\<rparr>"
  have a1: "fst (firestore_call loja_com_entrada)"
    and a2: "fst (firestore_call (snd (firestore_call loja_com_entrada)))"
    by (simp_all add: firestore_call_def loja_com_entrada_def)
  have janela: "registros_desde loja_com_entrada (meia_noite calendario_utc tarde) 1 = {?reg}"
    by (auto simp add: registros_desde_def loja_com_entrada_def calendario_utc_def
        manha_def tarde_def)
  have ne: "registros_desde loja_com_entrada (meia_noite calendario_utc tarde) 1 \<noteq> {}"
    by (simp only: janela) simp
  have n: "next_ident loja_com_entrada = 8"
    by (simp add: loja_com_entrada_def)
  have d: "data_pt_BR calendario_utc tarde = ''03/11/2025''"
    by code_simp
  note t1 = attendance_type_by_lookup [of loja_com_entrada calendario_utc tarde tarde 1 ana]
  obtain u where "u \<in> registros_desde loja_com_entrada (meia_noite calendario_utc tarde) 1"
    and T: "fst (determinarTipoRegistro calendario_utc loja_com_entrada tarde 1) =
      (if tipo u = entrada then saida else entrada)"
    using t1 a1 ne by blast
  then have "tipo u = entrada"
    by (simp only: janela) simp
  then have T1: "fst (determinarTipoRegistro calendario_utc loja_com_entrada tarde 1) = saida"
    using T by simp
  have r1: "fst (registrarPonto calendario_utc loja_com_entrada tarde tarde 1 ana) =
     Inr \<lparr>ponto_id = 8, ponto_tipo = saida, ponto_horario = tarde\<rparr>"
    using t1 a2 T1 n by simp
  have r1': "registros (snd (registrarPonto calendario_utc loja_com_entrada tarde tarde 1 ana)) =
     registros loja_com_entrada @
       [\<lparr>reg_ident = 8, funcionarioId = 1, reg_nome = ''Ana'', tipo = saida,
         horario = tarde, reg_data = ''03/11/2025''\<rparr>]"
    using t1 a2 T1 n d by (simp add: ana_def)
  have b1: "fst (firestore_call loja_com_ana)"
    and b2: "fst (firestore_call (snd (firestore_call loja_com_ana)))"
    by (simp_all add: firestore_call_def loja_com_ana_def)
  have vazio: "registros_desde loja_com_ana (meia_noite calendario_utc manha) 1 = {}"
    by (simp add: registros_desde_def loja_com_ana_def)
  have n2: "next_ident loja_com_ana = 2"
    by (simp add: loja_com_ana_def)
  note t2 = attendance_type_by_lookup [of loja_com_ana calendario_utc manha manha 1 ana]
  have T2: "fst (determinarTipoRegistro calendario_utc loja_com_ana manha 1) = entrada"
    using t2 b1 vazio by blast
  have r2: "fst (registrarPonto calendario_utc loja_com_ana manha manha 1 ana) =
     Inr \<lparr>ponto_id = 2, ponto_tipo = entrada, ponto_horario = manha\<rparr>"
    using t2 b2 T2 n2 by simp
  have c1: "\<not> fst (firestore_call (loja_com_entrada\<lparr>faults := [True]\<rparr>))"
    by (simp add: firestore_call_def)
  have r3: "fst (determinarTipoRegistro calendario_utc (loja_com_entrada\<lparr>faults := [True]\<rparr>)
      tarde 1) = entrada"
    using attendance_type_by_lookup [of "loja_com_entrada\<lparr>faults := [True]\<rparr>" calendario_utc
        tarde tarde 1 ana] c1 by blast
  have d1: "\<not> fst (firestore_call (snd (firestore_call
      (loja_com_entrada\<lparr>faults := [False, True]\<rparr>))))"
    by (simp add: firestore_call_def)
  have r4: "fst (registrarPonto calendario_utc (loja_com_entrada\<lparr>faults := [False, True]\<rparr>)
       tarde tarde 1 ana) = Inl StoreUnavailable \<and>
     registros (snd (registrarPonto calendario_utc (loja_com_entrada\<lparr>faults := [False, True]\<rparr>)
       tarde tarde 1 ana)) = registros (loja_com_entrada\<lparr>faults := [False, True]\<rparr>)"
    using attendance_type_by_lookup [of "loja_com_entrada\<lparr>faults := [False, True]\<rparr>"
        calendario_utc tarde tarde 1 ana] d1 by blast
  show ?thesis
    using a1 a2 janela r1 r1' b1 b2 vazio r2 c1 r3 d1 r4 by simp
qed

text \<open>
  The claim C4 as it was stated fails in three ways, shown here in the time zone UTC for
  the employee whose only record is an entry. First, the record is an entry of the morning
  and the query for it is rejected: the new record of the afternoon is an entry again.
  Second, the record is an entry of the morning, \<^verbatim>\<open>registrarPonto\<close> reads the clock in the
  last millisecond of the day and \<^verbatim>\<open>determinarTipoRegistro\<close> reads it at the next midnight:
  the query is answered with no record, and the new record, dated on the day of the first
  entry, is an entry again. Third, the record is dated on the next morning (written by a
  browser whose clock was ahead): the employee has no record of the day, and the new record
  of the day is an exit.
\<close>

theorem attendance_not_alternating:
  "map (\<lambda>r. (tipo r, reg_data r))
     (registros (snd (registrarPonto calendario_utc (loja_com_entrada\<lparr>faults := [True]\<rparr>)
        tarde tarde 1 ana))) =
     [(entrada, ''03/11/2025''), (entrada, ''03/11/2025'')] \<and>
   fst (firestore_call loja_com_entrada) \<and>
   map (\<lambda>r. (tipo r, reg_data r))
     (registros (snd (registrarPonto calendario_utc loja_com_entrada fim_do_dia virada 1 ana))) =
     [(entrada, ''03/11/2025''), (entrada, ''03/11/2025'')] \<and>
   fst (firestore_call loja_adiantada) \<and>
   map (\<lambda>r. (tipo r, reg_data r))
     (registros (snd (registrarPonto calendario_utc loja_adiantada tarde tarde 1 ana))) =
     [(entrada, ''04/11/2025''), (saida, ''03/11/2025'')]"
  by code_simp

text \<open>Three events of one employee on one day: entry, exit, entry.\<close>

lemma attendance_three_events:
  "map tipo (registros (snd (registrarPonto calendario_utc
      (snd (registrarPonto calendario_utc
        (snd (registrarPonto calendario_utc loja_com_ana manha manha 1 ana))
        (manha + 1000) (manha + 1000) 1 ana))
      tarde tarde 1 ana))) = [entrada, saida, entrada]"
  by (simp add: registrarPonto_def determinarTipoRegistro_def ultimo_registro_query_def
      firestore_call_def loja_com_ana_def calendario_utc_def
      manha_def tarde_def saida_neq_entrada Let_def)

subsection \<open>Unique templates\<close>

text \<open>
  Claim C5. After an enrolment has succeeded, a second enrolment with the same raw payload,
  for whatever profile, fails with the duplicate error when its lookup is answered, and
  leaves the collection of employees as it was. Consequently enrolment preserves the
  invariant that the raw payloads of the active employees are pairwise different.
\<close>

theorem duplicate_template_rejected:
  "(FirebaseService_cadastrarFuncionario s p1 t1 = (Inr i, s1) \<and>
    raw t2 = raw t1 \<and> fst (firestore_call s1) \<longrightarrow>
      fst (FirebaseService_cadastrarFuncionario s1 p2 t2) = Inl DuplicateTemplate \<and>
      funcionarios (snd (FirebaseService_cadastrarFuncionario s1 p2 t2)) = funcionarios s1) \<and>
   (distinct (digitais_ativas s) \<longrightarrow>
      distinct (digitais_ativas (snd (FirebaseService_cadastrarFuncionario s p1 t1))))"
proof (intro conjI impI)
  assume h: "FirebaseService_cadastrarFuncionario s p1 t1 = (Inr i, s1) \<and>
    raw t2 = raw t1 \<and> fst (firestore_call s1)"
  from h have first: "FirebaseService_cadastrarFuncionario s p1 t1 = (Inr i, s1)" ..
  from h have same: "raw t2 = raw t1" by (elim conjE)
  from h have ok: "fst (firestore_call s1)" by (elim conjE)
  show dup: "fst (FirebaseService_cadastrarFuncionario s1 p2 t2) = Inl DuplicateTemplate"
    using first same ok by (rule second_enrolment_rejected)
  show "funcionarios (snd (FirebaseService_cadastrarFuncionario s1 p2 t2)) = funcionarios s1"
    using dup by (rule cadastrar_error_frame)
next
  assume "distinct (digitais_ativas s)"
  then show "distinct (digitais_ativas (snd (FirebaseService_cadastrarFuncionario s p1 t1)))"
    by (rule cadastrar_keeps_distinct)
qed

text \<open>
  Enrolling into the empty store and then enrolling another profile with the same payload.
\<close>

theorem duplicate_template_rejected_witness:
  "FirebaseService_cadastrarFuncionario loja_vazia perfil_ana boundary_a = (Inr 1, loja_com_ana) \<and>
   raw boundary_a = raw boundary_a \<and> fst (firestore_call loja_com_ana) \<and>
   distinct (digitais_ativas loja_vazia) \<and>
   fst (FirebaseService_cadastrarFuncionario loja_com_ana bruno boundary_a) = Inl DuplicateTemplate \<and>
   funcionarios (snd (FirebaseService_cadastrarFuncionario loja_com_ana bruno boundary_a)) =
     funcionarios loja_com_ana \<and>
   distinct (digitais_ativas (snd (FirebaseService_cadastrarFuncionario loja_vazia perfil_ana boundary_a)))"
proof -
  have first: "FirebaseService_cadastrarFuncionario loja_vazia perfil_ana boundary_a =
      (Inr 1, loja_com_ana)"
    by (simp add: FirebaseService_cadastrarFuncionario_def buscarFuncionarioPorDigitalExata_def
        firestore_call_def loja_vazia_def loja_com_ana_def perfil_ana_def boundary_a_def ana_def
        Let_def)
  have ok: "fst (firestore_call loja_com_ana)"
    by (simp add: firestore_call_def loja_com_ana_def)
  have d: "distinct (digitais_ativas loja_vazia)"
    by (simp add: digitais_ativas_def loja_vazia_def)
  show ?thesis
    using duplicate_template_rejected [of loja_vazia perfil_ana boundary_a 1 loja_com_ana
        boundary_a bruno] first ok d
    by simp
qed

section \<open>Properties of the controller\<close>

text \<open>The verdicts of the matcher on the concrete templates.\<close>

lemma scenario_confirmation:
  "compareFingerprints
     (Some \<lparr>format = ''PNG'', data = None, raw = ''ChQe''\<rparr>)
     (Some \<lparr>format = ''PNG'', data = None, raw = ''DBIh''\<rparr>) =
     Inr \<lparr>matched = True, score = Num 100\<rparr> \<and>
   base64ToArrayBuffer ''ChQe'' = Inr [10, 20, 30] \<and>
   base64ToArrayBuffer ''DBIh'' = Inr [12, 18, 33]"
  by code_simp

lemma compare_boundary:
  "compareFingerprints (Some boundary_a) (Some boundary_b) =
     Inr \<lparr>matched = False, score = Num 70\<rparr>"
  by code_simp







text \<open>
  Claim C6. When both captures succeed and the matcher returns a negative verdict for them,
  the enrolment of the controller returns the unsuccessful result that carries the
  confirmation-mismatch error, and the store is exactly the one it started from: no
  Firestore call was made and no employee was written.
\<close>

theorem confirmation_mismatch_no_write:
  assumes "capturarDigital captura1 = Inr t1"
    and "capturarDigital captura2 = Inr t2"
    and "compareFingerprints (Some t1) (Some t2) = Inr v"
    and "\<not> matched v"
  shows "FingerprintController_cadastrarFuncionario s p captura1 captura2 =
      (falha ConfirmationMismatch, s) \<and>
    success (falha ConfirmationMismatch) = False \<and>
    error (falha ConfirmationMismatch) = Some ConfirmationMismatch"
  using assms by (simp add: FingerprintController_cadastrarFuncionario_def falha_def)

text \<open>
  The two ten-byte captures score 70, which is not a match: nothing is enrolled.
\<close>

theorem confirmation_mismatch_no_write_witness:
  "capturarDigital (Inr (Some boundary_a)) = Inr boundary_a \<and>
   capturarDigital (Inr (Some boundary_b)) = Inr boundary_b \<and>
   compareFingerprints (Some boundary_a) (Some boundary_b) = Inr \<lparr>matched = False, score = Num 70\<rparr> \<and>
   \<not> matched \<lparr>matched = False, score = Num 70\<rparr> \<and>
   FingerprintController_cadastrarFuncionario loja_vazia bruno (Inr (Some boundary_a))
     (Inr (Some boundary_b)) = (falha ConfirmationMismatch, loja_vazia) \<and>
   success (falha ConfirmationMismatch) = False \<and>
   error (falha ConfirmationMismatch) = Some ConfirmationMismatch"
proof -
  have c1: "capturarDigital (Inr (Some boundary_a)) = Inr boundary_a"
    and c2: "capturarDigital (Inr (Some boundary_b)) = Inr boundary_b"
    by (simp_all add: capturarDigital_def)
  have m: "\<not> matched \<lparr>matched = False, score = Num 70\<rparr>"
    by simp
  show ?thesis
    using confirmation_mismatch_no_write [OF c1 c2 compare_boundary m, of loja_vazia bruno]
      c1 c2 compare_boundary
    by simp
qed








section \<open>Properties of starting a capture\<close>

text \<open>
  Claim C3, as the code has it. A call of \<^verbatim>\<open>captureFingerprint\<close> while a capture is pending is
  not refused: its promise is never rejected with a busy error. If \<^verbatim>\<open>startCapture\<close> does not
  throw, the call leaves the earlier promises as they are, adds a pending promise of its own,
  calls \<^verbatim>\<open>startCapture\<close> once more and replaces \<^verbatim>\<open>window.sampleAcquired\<close> by its own closure,
  which wraps the handler of the pending capture. If \<^verbatim>\<open>startCapture\<close> throws, the new promise
  is rejected with that error and the handler is put back.
\<close>

theorem capture_while_pending_not_rejected:
  assumes "in_flight b"
    and "captureFingerprint b = (p, b')"
  shows "p = length (promises b) \<and> take p (promises b') = promises b \<and>
    promises b' ! p \<noteq> Rejected SessionBusy \<and>
    (\<not> startCapture_throws b \<longrightarrow>
       promises b' = promises b @ [Pending] \<and> in_flight b' \<and>
       startCapture_calls b' = Suc (startCapture_calls b) \<and>
       sampleAcquired b' = Wrapper p (sampleAcquired b) \<and>
       timers b' = timers b @ [(p, sampleAcquired b)]) \<and>
    (startCapture_throws b \<longrightarrow>
       promises b' = promises b @ [Rejected DeviceError] \<and>
       startCapture_calls b' = startCapture_calls b \<and>
       sampleAcquired b' = sampleAcquired b)"
  using assms(2)
  by (cases "startCapture_throws b")
    (auto simp add: captureFingerprint_def Let_def in_flight_def nth_append)

text \<open>
  The second of two calls in a row from the initial page.
\<close>

theorem capture_while_pending_not_rejected_witness:
  "in_flight (snd (captureFingerprint navegador_inicial)) \<and>
   fst (captureFingerprint (snd (captureFingerprint navegador_inicial))) = 1 \<and>
   promises (snd (captureFingerprint (snd (captureFingerprint navegador_inicial)))) =
     [Pending, Pending] \<and>
   startCapture_calls (snd (captureFingerprint (snd (captureFingerprint navegador_inicial)))) = 2 \<and>
   sampleAcquired (snd (captureFingerprint (snd (captureFingerprint navegador_inicial)))) =
     Wrapper 1 (Wrapper 0 PageHandler)"
proof -
  let ?b1 = "snd (captureFingerprint navegador_inicial)"
  have b1: "?b1 = navegador_inicial\<lparr>currentFormat := PngImage,
      sampleAcquired := Wrapper 0 PageHandler, promises := [Pending],
      timers := [(0, PageHandler)],
      status_messages := [''Posicione seu dedo no leitor...''],
      startCapture_calls := 1\<rparr>"
    by (simp add: captureFingerprint_def navegador_inicial_def Let_def)
  have fl: "in_flight ?b1"
    by (simp add: b1 in_flight_def)
  have nt: "\<not> startCapture_throws ?b1"
    by (subst b1) (simp add: navegador_inicial_def)
  have facts: "promises ?b1 = [Pending]" "startCapture_calls ?b1 = 1"
      "sampleAcquired ?b1 = Wrapper 0 PageHandler"
    by (simp_all add: b1)
  show ?thesis
    using capture_while_pending_not_rejected [OF fl surjective_pairing] fl nt facts
    by simp
qed

text \<open>
  The claim C3 as it was stated fails: two calls in a row from the initial page. The second
  call finds the first capture pending, and yet its promise is pending, not rejected;
  \<^verbatim>\<open>startCapture\<close> has been called twice and the handler of the first call has been replaced.
\<close>

theorem second_capture_starts:
  "in_flight (snd (captureFingerprint navegador_inicial)) \<and>
   promises (snd (captureFingerprint (snd (captureFingerprint navegador_inicial)))) !
     fst (captureFingerprint (snd (captureFingerprint navegador_inicial))) = Pending \<and>
   promises (snd (captureFingerprint (snd (captureFingerprint navegador_inicial)))) !
     fst (captureFingerprint (snd (captureFingerprint navegador_inicial))) \<noteq> Rejected SessionBusy \<and>
   startCapture_calls (snd (captureFingerprint (snd (captureFingerprint navegador_inicial)))) = 2 \<and>
   sampleAcquired (snd (captureFingerprint navegador_inicial)) = Wrapper 0 PageHandler \<and>
   sampleAcquired (snd (captureFingerprint (snd (captureFingerprint navegador_inicial)))) =
     Wrapper 1 (Wrapper 0 PageHandler)"
  by (simp add: captureFingerprint_def navegador_inicial_def in_flight_def Let_def)

text \<open>
  What the replaced handler leads to: after two calls in a row a single sample resolves both
  promises with the same template, and the closure of the first call stays installed as
  \<^verbatim>\<open>window.sampleAcquired\<close>.
\<close>

lemma one_sample_resolves_both:
  "promises (sample_arrives pagina amostra
      (snd (captureFingerprint (snd (captureFingerprint navegador_inicial))))) =
     [Resolved \<lparr>format = ''PNG'', data = Some ''data:image/png;base64,AAAAAAAAAAAAAA=='',
                 raw = ''AAAAAAAAAAAAAA==''\<rparr>,
      Resolved \<lparr>format = ''PNG'', data = Some ''data:image/png;base64,AAAAAAAAAAAAAA=='',
                 raw = ''AAAAAAAAAAAAAA==''\<rparr>] \<and>
   sampleAcquired (sample_arrives pagina amostra
      (snd (captureFingerprint (snd (captureFingerprint navegador_inicial))))) =
     Wrapper 0 PageHandler"
  by (simp add: sample_arrives_def captureFingerprint_def navegador_inicial_def pagina_def
      amostra_def settle_def Let_def)

end
